theory Spec2Isabelle
  imports Complex_Main "HOL-Library.Sublist"
begin

text \<open>
  The pricing and order-composition logic of the storefront: the option parsers, the
  price resolver and add-to-cart of the product page (ProductDetail.tsx), the
  measurement display of the cart page (Cart.tsx), and the coupon evaluator and the
  order composer of the checkout page (Checkout.tsx). The data store is reached
  through the Supabase client; its tables are lists of rows here, and what the store
  answers to a write is an argument of the function that writes.
\<close>

section \<open>JavaScript values\<close>

text \<open>
  The storefront is TypeScript running on JavaScript values. A JavaScript number is
  modelled as an exact real or \<open>NaN\<close>: rounding, the infinities and the sign of zero
  are not modelled. Database columns of type DECIMAL/NUMERIC reach the client through
  JSON, which cannot carry \<open>NaN\<close>, so they are plain reals (\<open>real option\<close> when the
  column is nullable). Values the code treats as \<open>any\<close> are \<open>jsval\<close>.
\<close>

datatype jsnum = NaN | Fin real

datatype jsval =
    JUndefined
  | JNull
  | JBool bool
  | JNum jsnum
  | JStr string
  | JObj "(string \<times> jsval) list"
  | JArr "jsval list"

text \<open>\<open>Boolean(v)\<close>, the test of \<open>if (v)\<close>, \<open>!v\<close>, \<open>v && _\<close> and \<open>v || _\<close>.\<close>

fun truthy :: "jsval \<Rightarrow> bool" where
  "truthy JUndefined = False"
| "truthy JNull = False"
| "truthy (JBool b) = b"
| "truthy (JNum NaN) = False"
| "truthy (JNum (Fin x)) = (x \<noteq> 0)"
| "truthy (JStr s) = (s \<noteq> [])"
| "truthy (JObj kvs) = True"
| "truthy (JArr vs) = True"

text \<open>
  Reading one of the data properties \<open>label\<close>, \<open>image_url\<close>, \<open>price\<close>: an object
  yields the stored value, or \<open>undefined\<close> when it has no such key; arrays and
  primitives have no such property. On \<open>null\<close> and \<open>undefined\<close> this is the optional
  chaining \<open>v?.k\<close>; every plain \<open>v.k\<close> of the source is guarded by a truthiness test.
\<close>

fun get_prop :: "jsval \<Rightarrow> string \<Rightarrow> jsval" where
  "get_prop (JObj kvs) k = (case map_of kvs k of Some v \<Rightarrow> v | None \<Rightarrow> JUndefined)"
| "get_prop v k = JUndefined"

text \<open>\<open>a ?? b\<close>: the right operand replaces \<open>null\<close> and \<open>undefined\<close> only.\<close>

fun nullish :: "jsval \<Rightarrow> jsval \<Rightarrow> jsval" where
  "nullish JUndefined b = b"
| "nullish JNull b = b"
| "nullish a b = a"

text \<open>
  \<open>a === b\<close>. Objects and arrays are equal only to themselves; the operands compared
  in this program come from two different responses and never alias, so two objects
  are never equal here. \<open>NaN\<close> is equal to nothing.
\<close>

fun strict_eq :: "jsval \<Rightarrow> jsval \<Rightarrow> bool" where
  "strict_eq JUndefined JUndefined = True"
| "strict_eq JNull JNull = True"
| "strict_eq (JBool a) (JBool b) = (a = b)"
| "strict_eq (JNum (Fin a)) (JNum (Fin b)) = (a = b)"
| "strict_eq (JStr a) (JStr b) = (a = b)"
| "strict_eq a b = False"

text \<open>
  \<open>String.prototype.trim\<close> over the ASCII white space (space, tab, line feed,
  vertical tab, form feed, carriage return); strings are byte strings here.
\<close>

definition is_space :: "char \<Rightarrow> bool" where
  "is_space c = (c \<in> set [CHR '' '', CHR 0x09, CHR 0x0A, CHR 0x0B, CHR 0x0C, CHR 0x0D])"

definition trim :: "string \<Rightarrow> string" where
  "trim s = rev (dropWhile is_space (rev (dropWhile is_space s)))"

text \<open>\<open>s.startsWith(p)\<close> and \<open>s.includes(p)\<close>.\<close>

definition startsWith :: "string \<Rightarrow> string \<Rightarrow> bool" where
  "startsWith s p = prefix p s"

fun str_includes :: "string \<Rightarrow> string \<Rightarrow> bool" where
  "str_includes [] p = (p = [])"
| "str_includes (c # cs) p = (prefix p (c # cs) \<or> str_includes cs p)"

text \<open>\<open>String.prototype.toUpperCase\<close> on ASCII letters; other bytes are kept.\<close>

definition upper_char :: "char \<Rightarrow> char" where
  "upper_char c =
     (case map_of (zip ''abcdefghijklmnopqrstuvwxyz'' ''ABCDEFGHIJKLMNOPQRSTUVWXYZ'') c of
        Some u \<Rightarrow> u
      | None \<Rightarrow> c)"

definition toUpperCase :: "string \<Rightarrow> string" where
  "toUpperCase s = map upper_char s"

section \<open>Errors\<close>

text \<open>
  Every \<open>throw\<close> of the modelled functions is a value of this type. \<open>StoreError\<close> is an
  error object handed back by the data store and re-thrown by the code.
\<close>

datatype error =
    PleaseLogin
  | ProductNotFound
  | PleaseSelect "string option"
  | CartIsEmpty
  | InvalidCouponCode
  | MinimumOrderAmount real
  | CouponExpired
  | StoreError string

section \<open>Coupons (Checkout.tsx)\<close>

datatype discount_type = Percentage | Fixed

text \<open>
  A row of the \<open>coupons\<close> table. \<open>discount_type\<close> is constrained by the schema to
  \<open>'percentage'\<close> or \<open>'fixed'\<close>; timestamps are milliseconds since the epoch.
\<close>

record coupon =
  code :: string
  discount_type :: discount_type
  discount_value :: real
  min_order_amount :: "real option"
  max_discount_amount :: "real option"
  valid_until :: "int option"
  is_active :: bool

text \<open>
  \<open>appliedCoupon.max_discount_amount || Infinity\<close>: \<open>null\<close> and \<open>0\<close> are falsy and
  give \<open>Infinity\<close>. \<open>Math.min(a, Infinity)\<close> is \<open>a\<close>.
\<close>

datatype cap = Cap real | Infinity

definition or_infinity :: "real option \<Rightarrow> cap" where
  "or_infinity m =
     (case m of None \<Rightarrow> Infinity | Some x \<Rightarrow> if x = 0 then Infinity else Cap x)"

definition math_min :: "real \<Rightarrow> cap \<Rightarrow> real" where
  "math_min a c = (case c of Infinity \<Rightarrow> a | Cap b \<Rightarrow> min a b)"

text \<open>
  \<^verbatim>\<open>
  const discount = appliedCoupon
    ? appliedCoupon.discount_type === 'percentage'
      ? Math.min((subtotal * appliedCoupon.discount_value) / 100,
                 appliedCoupon.max_discount_amount || Infinity)
      : appliedCoupon.discount_value
    : 0;
  const total = subtotal - discount;
  \<close>
\<close>

definition discount :: "real \<Rightarrow> coupon option \<Rightarrow> real" where
  "discount subtotal appliedCoupon =
     (case appliedCoupon of
        None \<Rightarrow> 0
      | Some c \<Rightarrow>
          if discount_type c = Percentage
          then math_min ((subtotal * discount_value c) / 100)
                 (or_infinity (max_discount_amount c))
          else discount_value c)"

definition total :: "real \<Rightarrow> coupon option \<Rightarrow> real" where
  "total subtotal appliedCoupon = subtotal - discount subtotal appliedCoupon"

text \<open>
  \<open>.maybeSingle()\<close> on the rows a query selects: no row is \<open>null\<close>, one row is that
  row, more than one is an error object of the store.
\<close>

definition maybeSingle :: "'a list \<Rightarrow> error + 'a option" where
  "maybeSingle rows =
     (case rows of
        [] \<Rightarrow> Inr None
      | [r] \<Rightarrow> Inr (Some r)
      | _ \<Rightarrow> Inl (StoreError ''PGRST116''))"

text \<open>
  The mutation function of \<open>applyCouponMutation\<close>, over the \<open>coupons\<close> table, the text
  of the coupon field, the subtotal and the current time.
  \<^verbatim>\<open>
  const { data, error } = await supabase.from('coupons').select('*')
    .eq('code', couponCode.toUpperCase()).eq('is_active', true).maybeSingle();
  if (error) throw error;
  if (!data) throw new Error('Invalid coupon code');
  if (data.min_order_amount && subtotal < data.min_order_amount)
    throw new Error(`Minimum order amount is ...${data.min_order_amount}`);
  if (data.valid_until && new Date(data.valid_until) < new Date())
    throw new Error('Coupon has expired');
  return data;
  \<close>
\<close>

definition select_coupon :: "coupon list \<Rightarrow> string \<Rightarrow> coupon list" where
  "select_coupon coupons couponCode =
     filter (\<lambda>c. code c = toUpperCase couponCode \<and> is_active c) coupons"

definition applyCoupon :: "coupon list \<Rightarrow> string \<Rightarrow> real \<Rightarrow> int \<Rightarrow> error + coupon" where
  "applyCoupon coupons couponCode subtotal now =
     (case maybeSingle (select_coupon coupons couponCode) of
        Inl e \<Rightarrow> Inl e
      | Inr None \<Rightarrow> Inl InvalidCouponCode
      | Inr (Some c) \<Rightarrow>
          (case min_order_amount c of
             Some m \<Rightarrow>
               if m \<noteq> 0 \<and> subtotal < m then Inl (MinimumOrderAmount m)
               else (case valid_until c of
                       Some t \<Rightarrow> if t < now then Inl CouponExpired else Inr c
                     | None \<Rightarrow> Inr c)
           | None \<Rightarrow>
               (case valid_until c of
                  Some t \<Rightarrow> if t < now then Inl CouponExpired else Inr c
                | None \<Rightarrow> Inr c)))"

section \<open>Catalogue and options (ProductDetail.tsx, types/products)\<close>

text \<open>The columns of a \<open>products\<close> row that the pricing logic reads.\<close>

record product =
  name :: string
  price_per_litre :: real
  offer_price_per_litre :: "real option"
  variant_title :: "string option"
  measurement_title :: "string option"

text \<open>
  \<^verbatim>\<open>
  interface VariantOption { label: string; image_url?: string | null; price?: number | null }
  interface MeasurementOption { label: string; price?: number | null }
  \<close>
  An optional, nullable field is an \<open>option\<close>: \<open>None\<close> stands for an absent key and
  for \<open>null\<close>, which the code never tells apart. The measurement parser copies
  \<open>parsed.label\<close> from parsed JSON without looking at its type, so a measurement label
  is a \<open>jsval\<close>; it can also store \<open>NaN\<close> as a price, so prices are \<open>jsnum\<close>.
\<close>

record variant_option =
  v_label :: string
  v_image_url :: "string option"
  v_price :: "jsnum option"

record measurement_option =
  m_label :: jsval
  m_price :: "jsnum option"

subsection \<open>Option parsers\<close>

text \<open>
  The library functions \<open>parseFloat\<close>, \<open>Number\<close> and \<open>JSON.parse\<close> are parameters of
  the parsers (\<open>JSON.parse\<close> returns \<open>None\<close> when it throws), so the general
  statements below hold whatever these functions compute.
  \<^verbatim>\<open>
  const price =
    typeof value.price === 'number' ? value.price
    : typeof value.price === 'string' && value.price !== '' ? parseFloat(value.price)
    : null;
  \<close>
\<close>

definition price_field :: "(string \<Rightarrow> jsnum) \<Rightarrow> jsval \<Rightarrow> jsnum option" where
  "price_field parse_float p =
     (case p of
        JNum n \<Rightarrow> Some n
      | JStr s \<Rightarrow> if s \<noteq> [] then Some (parse_float s) else None
      | _ \<Rightarrow> None)"

text \<open>\<open>price !== null && !Number.isNaN(price)\<close>: the price kept in the option.\<close>

definition drop_nan :: "jsnum option \<Rightarrow> jsnum option" where
  "drop_nan p = (case p of Some (Fin x) \<Rightarrow> Some (Fin x) | _ \<Rightarrow> None)"

text \<open>
  The object branch of the callback in \<open>parseVariantOptions\<close> (\<open>typeof value ===
  'object'\<close>, which holds of objects and arrays; \<open>null\<close> has left at \<open>!value\<close>).
  \<^verbatim>\<open>
  const label = typeof value.label === 'string' ? value.label.trim() : '';
  if (!label) return null;
  const image_url = typeof value.image_url === 'string' && value.image_url.length > 0
    ? value.image_url : null;
  const price = ...;
  return price !== null && !Number.isNaN(price)
    ? { label, image_url, price } : { label, image_url };
  \<close>
\<close>

definition variant_of_object :: "(string \<Rightarrow> jsnum) \<Rightarrow> jsval \<Rightarrow> variant_option option" where
  "variant_of_object parse_float v =
     (let label = (case get_prop v ''label'' of JStr l \<Rightarrow> trim l | _ \<Rightarrow> [])
      in if label = [] then None
         else Some \<lparr>v_label = label,
                v_image_url =
                  (case get_prop v ''image_url'' of
                     JStr u \<Rightarrow> if length u > 0 then Some u else None
                   | _ \<Rightarrow> None),
                v_price = drop_nan (price_field parse_float (get_prop v ''price''))\<rparr>)"

text \<open>
  The callback of \<open>values.map(...)\<close> in \<open>parseVariantOptions\<close>: \<open>None\<close> is the
  \<open>null\<close> that \<open>.filter(Boolean)\<close> removes.
  \<^verbatim>\<open>
  if (!value) return null;
  if (typeof value === 'string') {
    const label = value.trim();
    return label ? { label } : null;
  }
  if (typeof value === 'object') { ... }
  return null;
  \<close>
\<close>

definition parseVariantOption :: "(string \<Rightarrow> jsnum) \<Rightarrow> jsval \<Rightarrow> variant_option option" where
  "parseVariantOption parse_float v =
     (if \<not> truthy v then None
      else case v of
             JStr s \<Rightarrow>
               (let label = trim s
                in if label \<noteq> []
                   then Some \<lparr>v_label = label, v_image_url = None, v_price = None\<rparr>
                   else None)
           | JObj kvs \<Rightarrow> variant_of_object parse_float v
           | JArr vs \<Rightarrow> variant_of_object parse_float v
           | _ \<Rightarrow> None)"

definition parseVariantOptions :: "(string \<Rightarrow> jsnum) \<Rightarrow> jsval \<Rightarrow> variant_option list" where
  "parseVariantOptions parse_float vals =
     (case vals of
        JArr vs \<Rightarrow> List.map_filter (parseVariantOption parse_float) vs
      | _ \<Rightarrow> [])"

text \<open>
  The string branch of the callback in \<open>measurementValues\<close>. An exception of
  \<open>JSON.parse\<close> is swallowed by \<open>catch {}\<close> and control falls through to the last
  \<open>return\<close>.
  \<^verbatim>\<open>
  const trimmed = v.trim();
  if (!trimmed) return null;
  if ((trimmed.startsWith('{') || trimmed.startsWith('[')) && trimmed.includes('label')) {
    try {
      const parsed = JSON.parse(trimmed);
      if (parsed && parsed.label) {
        const m: MeasurementOption = { label: parsed.label };
        if (parsed.price) m.price = Number(parsed.price);
        return m;
      }
    } catch {}
  }
  return { label: trimmed } as MeasurementOption;
  \<close>
\<close>

definition json_shaped :: "string \<Rightarrow> bool" where
  "json_shaped trimmed =
     ((startsWith trimmed ''{'' \<or> startsWith trimmed ''['') \<and> str_includes trimmed ''label'')"

definition measurement_of_parsed :: "(jsval \<Rightarrow> jsnum) \<Rightarrow> jsval \<Rightarrow> measurement_option option" where
  "measurement_of_parsed to_number parsed =
     (if truthy parsed \<and> truthy (get_prop parsed ''label'')
      then Some \<lparr>m_label = get_prop parsed ''label'',
                 m_price =
                   (if truthy (get_prop parsed ''price'')
                    then Some (to_number (get_prop parsed ''price''))
                    else None)\<rparr>
      else None)"

definition measurement_of_string ::
  "(string \<Rightarrow> jsval option) \<Rightarrow> (jsval \<Rightarrow> jsnum) \<Rightarrow> string \<Rightarrow> measurement_option option" where
  "measurement_of_string json_parse to_number v =
     (let trimmed = trim v
      in if trimmed = [] then None
         else if json_shaped trimmed
         then (case json_parse trimmed of
                 Some parsed \<Rightarrow>
                   (case measurement_of_parsed to_number parsed of
                      Some m \<Rightarrow> Some m
                    | None \<Rightarrow> Some \<lparr>m_label = JStr trimmed, m_price = None\<rparr>)
               | None \<Rightarrow> Some \<lparr>m_label = JStr trimmed, m_price = None\<rparr>)
         else Some \<lparr>m_label = JStr trimmed, m_price = None\<rparr>)"

text \<open>
  The object branch of the same callback.
  \<^verbatim>\<open>
  const label = v.label || '';
  if (!label) return null;
  const price = typeof v.price === 'number' ? v.price
    : typeof v.price === 'string' && v.price !== '' ? parseFloat(v.price) : undefined;
  const m: MeasurementOption = { label };
  if (price !== undefined && !Number.isNaN(price)) m.price = price;
  return m;
  \<close>
\<close>

definition measurement_of_object :: "(string \<Rightarrow> jsnum) \<Rightarrow> jsval \<Rightarrow> measurement_option option" where
  "measurement_of_object parse_float v =
     (let label = (if truthy (get_prop v ''label'') then get_prop v ''label'' else JStr [])
      in if \<not> truthy label then None
         else Some \<lparr>m_label = label,
                m_price = drop_nan (price_field parse_float (get_prop v ''price''))\<rparr>)"

definition parseMeasurementOption ::
  "(string \<Rightarrow> jsval option) \<Rightarrow> (jsval \<Rightarrow> jsnum) \<Rightarrow> (string \<Rightarrow> jsnum) \<Rightarrow> jsval
     \<Rightarrow> measurement_option option" where
  "parseMeasurementOption json_parse to_number parse_float v =
     (if \<not> truthy v then None
      else case v of
             JStr s \<Rightarrow> measurement_of_string json_parse to_number s
           | JObj kvs \<Rightarrow> measurement_of_object parse_float v
           | JArr vs \<Rightarrow> measurement_of_object parse_float v
           | _ \<Rightarrow> None)"

definition measurementValues ::
  "(string \<Rightarrow> jsval option) \<Rightarrow> (jsval \<Rightarrow> jsnum) \<Rightarrow> (string \<Rightarrow> jsnum) \<Rightarrow> jsval
     \<Rightarrow> measurement_option list" where
  "measurementValues json_parse to_number parse_float vals =
     (case vals of
        JArr vs \<Rightarrow> List.map_filter (parseMeasurementOption json_parse to_number parse_float) vs
      | _ \<Rightarrow> [])"

text \<open>
  An option as the JavaScript object the parser returned, to give it to the parser
  again. An absent \<open>image_url\<close> is written as \<open>null\<close>; both read back the same.
\<close>

definition variant_js :: "variant_option \<Rightarrow> jsval" where
  "variant_js v =
     JObj ([(''label'', JStr (v_label v)),
            (''image_url'', case v_image_url v of Some u \<Rightarrow> JStr u | None \<Rightarrow> JNull)]
           @ (case v_price v of Some p \<Rightarrow> [(''price'', JNum p)] | None \<Rightarrow> []))"

definition measurement_js :: "measurement_option \<Rightarrow> jsval" where
  "measurement_js m =
     JObj ([(''label'', m_label m)]
           @ (case m_price m of Some p \<Rightarrow> [(''price'', JNum p)] | None \<Rightarrow> []))"

text \<open>
  A variant option in normal form: a non-empty label without white space at its ends,
  an image reference that is absent or not empty, and a price that is not \<open>NaN\<close>.
\<close>

definition variant_normal :: "variant_option \<Rightarrow> bool" where
  "variant_normal v =
     (v_label v \<noteq> [] \<and> trim (v_label v) = v_label v \<and> v_image_url v \<noteq> Some []
      \<and> v_price v \<noteq> Some NaN)"

subsection \<open>Price resolver\<close>

text \<open>
  \<^verbatim>\<open>
  const vPrice = typeof selectedVariant?.price === 'number' &&
    !Number.isNaN(selectedVariant.price) ? selectedVariant.price : 0;
  const mPrice = (the same of selectedMeasurement);
  const effectivePrice = vPrice || mPrice
    ? vPrice + mPrice
    : product.offer_price_per_litre ?? product.price_per_litre;
  \<close>
\<close>

text \<open>The truthiness of a number that is not \<open>NaN\<close>: every number but 0.\<close>

definition truthy_number :: "real \<Rightarrow> bool" where
  "truthy_number x = (x \<noteq> 0)"

definition numeric_price :: "jsnum option \<Rightarrow> real" where
  "numeric_price p = (case p of Some (Fin x) \<Rightarrow> x | _ \<Rightarrow> 0)"

definition vPrice :: "variant_option option \<Rightarrow> real" where
  "vPrice selectedVariant =
     (case selectedVariant of Some v \<Rightarrow> numeric_price (v_price v) | None \<Rightarrow> 0)"

definition mPrice :: "measurement_option option \<Rightarrow> real" where
  "mPrice selectedMeasurement =
     (case selectedMeasurement of Some m \<Rightarrow> numeric_price (m_price m) | None \<Rightarrow> 0)"

definition effectivePrice ::
  "product \<Rightarrow> variant_option option \<Rightarrow> measurement_option option \<Rightarrow> real" where
  "effectivePrice p selectedVariant selectedMeasurement =
     (if truthy_number (vPrice selectedVariant) \<or> truthy_number (mPrice selectedMeasurement)
      then vPrice selectedVariant + mPrice selectedMeasurement
      else (case offer_price_per_litre p of Some offer \<Rightarrow> offer | None \<Rightarrow> price_per_litre p))"

text \<open>
  The rule of the specification, in its words: if either selection carries a non-NaN
  numeric price, the effective price is the sum of the two, a missing one counting as
  0; otherwise it is the sale price if present, else the base price.
\<close>

definition carried_price :: "jsnum option \<Rightarrow> real option" where
  "carried_price p = (case p of Some (Fin x) \<Rightarrow> Some x | _ \<Rightarrow> None)"

definition carries :: "real option \<Rightarrow> bool" where
  "carries p = (p \<noteq> None)"

definition spec_effective_price ::
  "real option \<Rightarrow> real option \<Rightarrow> real option \<Rightarrow> real \<Rightarrow> real" where
  "spec_effective_price variantPrice measurementPrice salePrice basePrice =
     (if carries variantPrice \<or> carries measurementPrice
      then (case variantPrice of Some x \<Rightarrow> x | None \<Rightarrow> 0)
         + (case measurementPrice of Some y \<Rightarrow> y | None \<Rightarrow> 0)
      else (case salePrice of Some s \<Rightarrow> s | None \<Rightarrow> basePrice))"

section \<open>A fragment of the library functions\<close>

text \<open>
  The theorems that hold for every input take \<open>JSON.parse\<close>, \<open>Number\<close> and
  \<open>parseFloat\<close> as parameters. To run the parsers on concrete inputs, this section
  defines the three functions on a fragment of their domain:
  \<^item> \<open>parseFloat\<close> on strings that, after leading white space, start with a decimal
    literal (optional sign, digits, optional fraction) that no exponent continues, and
    on strings that start with no number at all;
  \<^item> \<open>Number\<close> on \<open>undefined\<close>, \<open>null\<close>, booleans, numbers, plain objects, and on
    strings that, trimmed, are empty, are such a decimal literal as a whole, or are no
    numeric literal at all;
  \<^item> \<open>JSON.parse\<close> on texts whose strings have no escape sequence or control
    character, whose numbers have no exponent and whose objects have no repeated key.

  On the fragment they return what ECMAScript specifies, with numbers exact. Outside it
  (exponents, hexadecimal literals, \<open>Infinity\<close>, a leading decimal point, an array given
  to \<open>Number\<close>, string escapes) the definitions are not the library functions, and no
  theorem below applies them there.
\<close>

definition is_digit :: "char \<Rightarrow> bool" where
  "is_digit c = (c \<in> set ''0123456789'')"

definition digit_value :: "char \<Rightarrow> nat" where
  "digit_value c =
     (case map_of (zip ''0123456789'' [0, 1, 2, 3, 4, 5, 6, 7, 8, 9]) c of
        Some d \<Rightarrow> d
      | None \<Rightarrow> 0)"

definition decimal :: "string \<Rightarrow> nat" where
  "decimal ds = foldl (\<lambda>n c. 10 * n + digit_value c) 0 ds"

text \<open>The longest prefix \<open>digits\<close> or \<open>digits.digits\<close>, its value, and the rest.\<close>

definition read_unsigned :: "string \<Rightarrow> (real \<times> string) option" where
  "read_unsigned s =
     (let ds = takeWhile is_digit s; r = dropWhile is_digit s
      in if ds = [] then None
         else (case r of
                 [] \<Rightarrow> Some (real (decimal ds), r)
               | c # r' \<Rightarrow>
                   (let fs = takeWhile is_digit r'
                    in if c = CHR ''.'' \<and> fs \<noteq> []
                       then Some (real (decimal ds) + real (decimal fs) / 10 ^ length fs,
                                  dropWhile is_digit r')
                       else Some (real (decimal ds), r))))"

definition read_decimal :: "string \<Rightarrow> (real \<times> string) option" where
  "read_decimal s =
     (case s of
        [] \<Rightarrow> None
      | c # r \<Rightarrow>
          if c = CHR ''-'' then (case read_unsigned r of
                                  Some (x, r') \<Rightarrow> Some (- x, r')
                                | None \<Rightarrow> None)
          else if c = CHR ''+'' then read_unsigned r
          else read_unsigned s)"

text \<open>\<open>parseFloat(s)\<close>: leading white space is skipped, a decimal prefix is read.\<close>

definition parseFloat :: "string \<Rightarrow> jsnum" where
  "parseFloat s =
     (case read_decimal (dropWhile is_space s) of Some (x, r) \<Rightarrow> Fin x | None \<Rightarrow> NaN)"

text \<open>\<open>Number(v)\<close>: a string must be a numeric literal as a whole, else the result is \<open>NaN\<close>.\<close>

fun Number :: "jsval \<Rightarrow> jsnum" where
  "Number JUndefined = NaN"
| "Number JNull = Fin 0"
| "Number (JBool b) = Fin (if b then 1 else 0)"
| "Number (JNum n) = n"
| "Number (JStr s) =
     (let t = trim s
      in if t = [] then Fin 0
         else (case read_decimal t of
                 Some (x, r) \<Rightarrow> if r = [] then Fin x else NaN
               | None \<Rightarrow> NaN))"
| "Number (JObj kvs) = NaN"
| "Number (JArr vs) = NaN"

definition is_json_ws :: "char \<Rightarrow> bool" where
  "is_json_ws c = (c \<in> set [CHR '' '', CHR 0x09, CHR 0x0A, CHR 0x0D])"

text \<open>After an opening quote: the characters up to the closing quote, and the rest.\<close>

fun json_string :: "string \<Rightarrow> (string \<times> string) option" where
  "json_string [] = None"
| "json_string (c # cs) =
     (if c = CHR 0x22 then Some ([], cs)
      else if c = CHR 0x5C then None
      else (case json_string cs of Some (t, r) \<Rightarrow> Some (c # t, r) | None \<Rightarrow> None))"

text \<open>A JSON number without exponent: no leading zero, no bare decimal point.\<close>

definition json_number :: "string \<Rightarrow> (real \<times> string) option" where
  "json_number s =
     (let ds = takeWhile is_digit s
      in if length ds > 1 \<and> hd ds = CHR ''0'' then None
         else (case read_unsigned s of
                 None \<Rightarrow> None
               | Some (x, r) \<Rightarrow>
                   if r \<noteq> [] \<and> hd r \<in> set ''.eE'' then None else Some (x, r)))"

text \<open>
  A recursive-descent reader of JSON values; the first argument bounds the number of
  nested calls, and \<open>JSON_parse\<close> gives it more than the text can use.
\<close>

fun json_value :: "nat \<Rightarrow> string \<Rightarrow> (jsval \<times> string) option"
  and json_members :: "nat \<Rightarrow> string \<Rightarrow> ((string \<times> jsval) list \<times> string) option"
  and json_elements :: "nat \<Rightarrow> string \<Rightarrow> (jsval list \<times> string) option" where
  "json_value 0 s = None"
| "json_value (Suc n) s =
     (case dropWhile is_json_ws s of
        [] \<Rightarrow> None
      | c # r \<Rightarrow>
          if c = CHR 0x22
          then (case json_string r of Some (t, r') \<Rightarrow> Some (JStr t, r') | None \<Rightarrow> None)
          else if c = CHR ''{''
          then (case dropWhile is_json_ws r of
                  [] \<Rightarrow> None
                | d # r' \<Rightarrow>
                    if d = CHR ''}'' then Some (JObj [], r')
                    else (case json_members n r of
                            Some (kvs, r'') \<Rightarrow> Some (JObj kvs, r'')
                          | None \<Rightarrow> None))
          else if c = CHR ''[''
          then (case dropWhile is_json_ws r of
                  [] \<Rightarrow> None
                | d # r' \<Rightarrow>
                    if d = CHR '']'' then Some (JArr [], r')
                    else (case json_elements n r of
                            Some (vs, r'') \<Rightarrow> Some (JArr vs, r'')
                          | None \<Rightarrow> None))
          else if c = CHR ''-''
          then (case json_number r of
                  Some (x, r') \<Rightarrow> Some (JNum (Fin (- x)), r')
                | None \<Rightarrow> None)
          else if is_digit c
          then (case json_number (c # r) of
                  Some (x, r') \<Rightarrow> Some (JNum (Fin x), r')
                | None \<Rightarrow> None)
          else if prefix ''true'' (c # r) then Some (JBool True, drop 4 (c # r))
          else if prefix ''false'' (c # r) then Some (JBool False, drop 5 (c # r))
          else if prefix ''null'' (c # r) then Some (JNull, drop 4 (c # r))
          else None)"
| "json_members 0 s = None"
| "json_members (Suc n) s =
     (case dropWhile is_json_ws s of
        [] \<Rightarrow> None
      | c # r \<Rightarrow>
          if c \<noteq> CHR 0x22 then None
          else (case json_string r of
                  None \<Rightarrow> None
                | Some (k, r1) \<Rightarrow>
                    (case dropWhile is_json_ws r1 of
                       [] \<Rightarrow> None
                     | c2 # r2 \<Rightarrow>
                         if c2 \<noteq> CHR '':'' then None
                         else (case json_value n r2 of
                                 None \<Rightarrow> None
                               | Some (v, r3) \<Rightarrow>
                                   (case dropWhile is_json_ws r3 of
                                      [] \<Rightarrow> None
                                    | c4 # r4 \<Rightarrow>
                                        if c4 = CHR '',''
                                        then (case json_members n r4 of
                                                Some (kvs, r5) \<Rightarrow> Some ((k, v) # kvs, r5)
                                              | None \<Rightarrow> None)
                                        else if c4 = CHR ''}'' then Some ([(k, v)], r4)
                                        else None)))))"
| "json_elements 0 s = None"
| "json_elements (Suc n) s =
     (case json_value n s of
        None \<Rightarrow> None
      | Some (v, r1) \<Rightarrow>
          (case dropWhile is_json_ws r1 of
             [] \<Rightarrow> None
           | c # r2 \<Rightarrow>
               if c = CHR '',''
               then (case json_elements n r2 of
                       Some (vs, r3) \<Rightarrow> Some (v # vs, r3)
                     | None \<Rightarrow> None)
               else if c = CHR '']'' then Some ([v], r2)
               else None))"

text \<open>\<open>JSON.parse(s)\<close>; \<open>None\<close> is the \<open>SyntaxError\<close> it throws.\<close>

definition JSON_parse :: "string \<Rightarrow> jsval option" where
  "JSON_parse s =
     (case json_value (Suc (length s)) s of
        Some (v, r) \<Rightarrow> if dropWhile is_json_ws r = [] then Some v else None
      | None \<Rightarrow> None)"

section \<open>Cart lines (ProductDetail.tsx, Cart.tsx)\<close>

text \<open>
  A row of \<open>cart_items\<close>. \<open>variant_selection\<close> is the JSONB object \<open>{label, image_url,
  price}\<close> that add-to-cart writes, or \<open>null\<close>. \<open>measurement_value\<close> is a TEXT column, so
  the client receives a string or \<open>null\<close>; the code also provides for an object there,
  so the field is a \<open>jsval\<close>. A number travels to the store as JSON, where \<open>NaN\<close> is
  written as \<open>null\<close>.
\<close>

record stored_variant =
  sel_label :: string
  sel_image_url :: "string option"
  sel_price :: "real option"

record cart_row =
  cart_id :: string
  user_id :: string
  product_id :: string
  quantity_litres :: real
  variant_selection :: "stored_variant option"
  variant_price :: "real option"
  measurement_label :: "string option"
  measurement_value :: jsval
  measurement_price :: "real option"

definition stored_number :: "jsnum option \<Rightarrow> real option" where
  "stored_number p = (case p of Some (Fin x) \<Rightarrow> Some x | _ \<Rightarrow> None)"

text \<open>
  What the mutation function of \<open>addToCartMutation\<close> reads from the component: the
  signed-in user's id, the loaded product, the route parameter \<open>id\<close>, the two flags,
  the current selection and the quantity.
\<close>

record detail_page =
  user :: "string option"
  product :: "product option"
  route_id :: string
  hasVariants :: bool
  hasMeasurements :: bool
  selectedVariant :: "variant_option option"
  selectedMeasurement :: "measurement_option option"
  quantity :: real

text \<open>
  \<^verbatim>\<open>
  const match = (existing || []).find((item: any) => {
    const itemVar = item?.variant_selection?.label ?? null;
    const currVar = selectedVariant?.label ?? null;
    const itemMeas = typeof item?.measurement_value === 'string'
      ? item.measurement_value
      : item?.measurement_value?.label ?? null;
    const currMeas = selectedMeasurement?.label ?? null;
    return itemVar === currVar && itemMeas === currMeas;
  });
  \<close>
\<close>

definition itemVar :: "'a cart_row_scheme \<Rightarrow> string option" where
  "itemVar item = map_option sel_label (variant_selection item)"

definition currVar :: "variant_option option \<Rightarrow> string option" where
  "currVar sv = map_option v_label sv"

definition itemMeas :: "'a cart_row_scheme \<Rightarrow> jsval" where
  "itemMeas item =
     (case measurement_value item of
        JStr s \<Rightarrow> JStr s
      | v \<Rightarrow> nullish (get_prop v ''label'') JNull)"

definition currMeas :: "measurement_option option \<Rightarrow> jsval" where
  "currMeas sm = (case sm of Some m \<Rightarrow> nullish (m_label m) JNull | None \<Rightarrow> JNull)"

definition line_matches ::
  "variant_option option \<Rightarrow> measurement_option option \<Rightarrow> 'a cart_row_scheme \<Rightarrow> bool" where
  "line_matches sv sm item =
     (itemVar item = currVar sv \<and> strict_eq (itemMeas item) (currMeas sm))"

text \<open>
  \<^verbatim>\<open>
  const variantPayload = selectedVariant
    ? { label: selectedVariant.label,
        image_url: selectedVariant.image_url ?? null,
        price: selectedVariant.price ?? null }
    : null;
  \<close>
\<close>

definition variantPayload :: "variant_option option \<Rightarrow> stored_variant option" where
  "variantPayload sv =
     map_option (\<lambda>v. \<lparr>sel_label = v_label v, sel_image_url = v_image_url v,
                        sel_price = stored_number (v_price v)\<rparr>) sv"

text \<open>\<open>a || null\<close> on a nullable string: the empty string is falsy.\<close>

definition or_null :: "string option \<Rightarrow> string option" where
  "or_null a = (case a of Some s \<Rightarrow> if s \<noteq> [] then Some s else None | None \<Rightarrow> None)"

text \<open>
  The row that \<open>insert\<close> sends; the store assigns its \<open>id\<close>.
  \<^verbatim>\<open>
  { user_id: user.id, product_id: id, quantity_litres: quantity,
    variant_selection: variantPayload,
    variant_price: selectedVariant?.price ?? null,
    measurement_label: product.measurement_title || null,
    measurement_value: selectedMeasurement?.label ?? null,
    measurement_price: selectedMeasurement?.price ?? null }
  \<close>
\<close>

definition new_cart_row :: "detail_page \<Rightarrow> string \<Rightarrow> product \<Rightarrow> string \<Rightarrow> cart_row" where
  "new_cart_row pg uid p new_id =
     \<lparr>cart_id = new_id, user_id = uid, product_id = route_id pg,
      quantity_litres = quantity pg,
      variant_selection = variantPayload (selectedVariant pg),
      variant_price =
        (case selectedVariant pg of Some v \<Rightarrow> stored_number (v_price v) | None \<Rightarrow> None),
      measurement_label = or_null (measurement_title p),
      measurement_value = currMeas (selectedMeasurement pg),
      measurement_price =
        (case selectedMeasurement pg of Some m \<Rightarrow> stored_number (m_price m) | None \<Rightarrow> None)\<rparr>"

text \<open>
  The mutation function of \<open>addToCartMutation\<close> over the rows of \<open>cart_items\<close>;
  \<open>new_id\<close> is the id the store gives an inserted row. The code does not look at the
  outcome of its three store calls; they are modelled as succeeding.
  \<^verbatim>\<open>
  if (!user) throw new Error('Please login');
  if (!product) throw new Error('Product not found');
  if (hasVariants && !selectedVariant) throw new Error(`Please select a ${product.variant_title}`);
  if (hasMeasurements && !selectedMeasurement)
    throw new Error(`Please select a ${product.measurement_title}`);
  const { data: existing } = await supabase.from('cart_items').select('*')
    .eq('user_id', user.id).eq('product_id', id);
  const match = (existing || []).find(...);
  if (match) {
    await supabase.from('cart_items')
      .update({ quantity_litres: match.quantity_litres + quantity }).eq('id', match.id);
  } else {
    await supabase.from('cart_items').insert({...});
  }
  \<close>
\<close>

definition existing_lines :: "string \<Rightarrow> string \<Rightarrow> cart_row list \<Rightarrow> cart_row list" where
  "existing_lines uid pid rows = filter (\<lambda>r. user_id r = uid \<and> product_id r = pid) rows"

definition update_quantity :: "string \<Rightarrow> real \<Rightarrow> cart_row list \<Rightarrow> cart_row list" where
  "update_quantity rid q rows =
     map (\<lambda>r. if cart_id r = rid then r\<lparr>quantity_litres := q\<rparr> else r) rows"

definition addToCart :: "detail_page \<Rightarrow> string \<Rightarrow> cart_row list \<Rightarrow> error + cart_row list" where
  "addToCart pg new_id rows =
     (case user pg of
        None \<Rightarrow> Inl PleaseLogin
      | Some uid \<Rightarrow>
          (case product pg of
             None \<Rightarrow> Inl ProductNotFound
           | Some p \<Rightarrow>
               if hasVariants pg \<and> selectedVariant pg = None
               then Inl (PleaseSelect (variant_title p))
               else if hasMeasurements pg \<and> selectedMeasurement pg = None
               then Inl (PleaseSelect (measurement_title p))
               else (case find (line_matches (selectedVariant pg) (selectedMeasurement pg))
                            (existing_lines uid (route_id pg) rows) of
                       Some match \<Rightarrow>
                         Inr (update_quantity (cart_id match)
                                (quantity_litres match + quantity pg) rows)
                     | None \<Rightarrow> Inr (rows @ [new_cart_row pg uid p new_id]))))"

text \<open>
  The cart page (Cart.tsx) shows the measurement of a line and unwraps a JSON text
  there; its comment reads: measurement_value may be a JSON string like
  \<open>{"label":"M","price":100}\<close>.
  \<^verbatim>\<open>
  try {
    if (typeof item.measurement_value === 'string') {
      const trimmed = item.measurement_value.trim();
      if ((trimmed.startsWith('{') || trimmed.startsWith('[')) && trimmed.includes('label')) {
        const parsed = JSON.parse(trimmed);
        if (parsed && parsed.label) return parsed.label;
      }
    }
  } catch (e) {}
  return item.measurement_value;
  \<close>
\<close>

definition displayed_measurement :: "(string \<Rightarrow> jsval option) \<Rightarrow> jsval \<Rightarrow> jsval" where
  "displayed_measurement json_parse mv =
     (case mv of
        JStr s \<Rightarrow>
          (let trimmed = trim s
           in if json_shaped trimmed
              then (case json_parse trimmed of
                      Some parsed \<Rightarrow>
                        if truthy parsed \<and> truthy (get_prop parsed ''label'')
                        then get_prop parsed ''label''
                        else mv
                    | None \<Rightarrow> mv)
              else mv)
      | _ \<Rightarrow> mv)"

section \<open>Order composition (Checkout.tsx)\<close>

text \<open>A cart line as the checkout query returns it: the row and its joined product.\<close>

record cart_item = cart_row +
  products :: "product option"

text \<open>
  \<^verbatim>\<open>
  const variantPrice = typeof item.variant_price === 'number'
    ? item.variant_price : item.variant_selection?.price;
  const measurementPrice = typeof item.measurement_price === 'number'
    ? item.measurement_price : undefined;
  const pricePerLitre = (typeof variantPrice === 'number' || typeof measurementPrice === 'number')
    ? ((variantPrice ?? 0) + (measurementPrice ?? 0))
    : (item.products?.offer_price_per_litre ?? item.products?.price_per_litre ?? 0);
  \<close>
\<close>

definition variantPrice :: "cart_item \<Rightarrow> real option" where
  "variantPrice item =
     (case variant_price item of
        Some x \<Rightarrow> Some x
      | None \<Rightarrow> (case variant_selection item of Some v \<Rightarrow> sel_price v | None \<Rightarrow> None))"

definition measurementPrice :: "cart_item \<Rightarrow> real option" where
  "measurementPrice item = measurement_price item"

text \<open>\<open>typeof x === 'number'\<close> on a nullable number, and \<open>x ?? 0\<close>.\<close>

definition is_number :: "real option \<Rightarrow> bool" where
  "is_number x = (x \<noteq> None)"

definition or_zero :: "real option \<Rightarrow> real" where
  "or_zero x = (case x of Some y \<Rightarrow> y | None \<Rightarrow> 0)"

definition pricePerLitre :: "cart_item \<Rightarrow> real" where
  "pricePerLitre item =
     (if is_number (variantPrice item) \<or> is_number (measurementPrice item)
      then or_zero (variantPrice item) + or_zero (measurementPrice item)
      else (case products item of
              None \<Rightarrow> 0
            | Some p \<Rightarrow>
                (case offer_price_per_litre p of
                   Some offer \<Rightarrow> offer
                 | None \<Rightarrow> price_per_litre p)))"

text \<open>
  The rule of the specification on what a cart line holds, in the words of its data
  model: the line's variant price snapshot, or else the price inside its selected
  variant; the line's measurement price snapshot; the sale price and the base price of
  its product. A line that has lost its product in the join has no catalogue price;
  the code takes 0 for it, and so does this definition.
\<close>

definition spec_line_price :: "cart_item \<Rightarrow> real" where
  "spec_line_price item =
     spec_effective_price
       (case variant_price item of
          Some x \<Rightarrow> Some x
        | None \<Rightarrow> (case variant_selection item of Some v \<Rightarrow> sel_price v | None \<Rightarrow> None))
       (measurement_price item)
       (case products item of Some p \<Rightarrow> offer_price_per_litre p | None \<Rightarrow> None)
       (case products item of Some p \<Rightarrow> price_per_litre p | None \<Rightarrow> 0)"

text \<open>
  \<^verbatim>\<open>
  const subtotal = cartItems?.reduce((sum, item) => {
    ...
    return sum + price * item.quantity_litres;
  }, 0) || 0;
  \<close>
  A cart that has not loaded (\<open>undefined\<close>) is the empty list here: both give 0, and
  both are refused by \<open>!cartItems?.length\<close> below.
\<close>

definition subtotal :: "cart_item list \<Rightarrow> real" where
  "subtotal cartItems =
     (let s = foldl (\<lambda>sum item. sum + pricePerLitre item * quantity_litres item) 0 cartItems
      in if s \<noteq> 0 then s else 0)"

datatype order_status = Pending | Confirmed | Processing | Shipped | Delivered | Cancelled

datatype payment_status = PaymentPending | Paid | Failed | Refunded

record order =
  order_id :: string
  order_user_id :: string
  order_number :: string
  total_amount :: real
  discount_amount :: real
  final_amount :: real
  coupon_code :: "string option"
  shipping_address :: string
  status :: order_status
  payment_status :: payment_status

record order_item =
  oi_order_id :: string
  oi_product_id :: string
  product_name :: string
  oi_quantity_litres :: real
  oi_price_per_litre :: real
  total_price :: real
  oi_variant_selection :: "stored_variant option"
  oi_measurement_label :: "string option"
  oi_measurement_value :: jsval

text \<open>
  \<^verbatim>\<open>
  return {
    order_id: order.id, product_id: item.product_id,
    product_name: item.products?.name || '',
    quantity_litres: item.quantity_litres,
    price_per_litre: pricePerLitre,
    total_price: pricePerLitre * item.quantity_litres,
    variant_selection: item.variant_selection || null,
    measurement_label: item.measurement_label || item.products?.measurement_title || null,
    measurement_value: item.measurement_value || null,
  };
  \<close>
\<close>

definition orderItem :: "string \<Rightarrow> cart_item \<Rightarrow> order_item" where
  "orderItem oid item =
     \<lparr>oi_order_id = oid,
      oi_product_id = product_id item,
      product_name = (case products item of Some p \<Rightarrow> name p | None \<Rightarrow> []),
      oi_quantity_litres = quantity_litres item,
      oi_price_per_litre = pricePerLitre item,
      total_price = pricePerLitre item * quantity_litres item,
      oi_variant_selection = variant_selection item,
      oi_measurement_label =
        (case or_null (measurement_label item) of
           Some l \<Rightarrow> Some l
         | None \<Rightarrow> (case products item of
                      Some p \<Rightarrow> or_null (measurement_title p)
                    | None \<Rightarrow> None)),
      oi_measurement_value =
        (if truthy (measurement_value item) then measurement_value item else JNull)\<rparr>"

text \<open>
  The two tables the composer writes. The store answers each insert: the \<open>orders\<close>
  insert with an error or the id of the new row, the \<open>order_items\<close> insert with an
  error or nothing; an insert that is answered with an error has stored nothing.
\<close>

record order_store =
  orders :: "order list"
  order_items :: "order_item list"

text \<open>
  \<^verbatim>\<open>
  const createSupabaseOrder = async () => {
    if (!user || !cartItems?.length) throw new Error('Cart is empty');
    const orderNumber = `ORD-${Date.now()}-${Math.floor(Math.random() * 1000)}`;
    const { data: order, error: orderError } = await supabase.from('orders')
      .insert({ user_id: user.id, order_number: orderNumber, total_amount: subtotal,
                discount_amount: discount, final_amount: total,
                coupon_code: appliedCoupon?.code, shipping_address: address,
                status: 'pending', payment_status: 'pending' })
      .select().single();
    if (orderError) throw orderError;
    const orderItems = cartItems.map((item) => {...});
    const { error: itemsError } = await supabase.from('order_items').insert(orderItems);
    if (itemsError) throw itemsError;
    return order;
  };
  \<close>
\<close>

definition createSupabaseOrder ::
  "string option \<Rightarrow> cart_item list \<Rightarrow> coupon option \<Rightarrow> string \<Rightarrow> string
     \<Rightarrow> error + string \<Rightarrow> error option \<Rightarrow> order_store \<Rightarrow> (error + order) \<times> order_store" where
  "createSupabaseOrder usr cartItems appliedCoupon address orderNumber order_reply
       items_reply st =
     (case usr of
        None \<Rightarrow> (Inl CartIsEmpty, st)
      | Some uid \<Rightarrow>
          if length cartItems = 0 then (Inl CartIsEmpty, st)
          else (case order_reply of
                  Inl orderError \<Rightarrow> (Inl orderError, st)
                | Inr oid \<Rightarrow>
                    (let ord = \<lparr>order_id = oid, order_user_id = uid,
                                order_number = orderNumber,
                                total_amount = subtotal cartItems,
                                discount_amount = discount (subtotal cartItems) appliedCoupon,
                                final_amount = total (subtotal cartItems) appliedCoupon,
                                coupon_code = map_option code appliedCoupon,
                                shipping_address = address,
                                status = Pending, payment_status = PaymentPending\<rparr>;
                         st1 = st\<lparr>orders := orders st @ [ord]\<rparr>
                     in (case items_reply of
                           Some itemsError \<Rightarrow> (Inl itemsError, st1)
                         | None \<Rightarrow>
                             (Inr ord,
                              st1\<lparr>order_items :=
                                    order_items st1 @ map (orderItem oid) cartItems\<rparr>)))))"

section \<open>Sample data\<close>

definition oil :: product where
  "oil = \<lparr>name = ''Groundnut oil'', price_per_litre = 100, offer_price_per_litre = Some 80,
          variant_title = Some ''Pack'', measurement_title = Some ''Volume''\<rparr>"

definition save10 :: coupon where
  "save10 = \<lparr>code = ''SAVE10'', discount_type = Percentage, discount_value = 10,
             min_order_amount = Some 100, max_discount_amount = None,
             valid_until = Some 1000, is_active = True\<rparr>"

definition flat50 :: coupon where
  "flat50 = \<lparr>code = ''FLAT50'', discount_type = Fixed, discount_value = 50,
             min_order_amount = None, max_discount_amount = None,
             valid_until = None, is_active = True\<rparr>"

text \<open>
  A cart line whose \<open>measurement_value\<close> holds a JSON text, and the product page of
  the same user and product with the measurement \<open>M\<close> selected.
\<close>

definition line_json_M :: cart_row where
  \<open>line_json_M =
     \<lparr>cart_id = ''r1'', user_id = ''u1'', product_id = ''p1'', quantity_litres = 1,
      variant_selection = None, variant_price = None, measurement_label = Some ''Volume'',
      measurement_value = JStr ''{"label":"M","price":100}'', measurement_price = None\<rparr>\<close>

definition page_M :: detail_page where
  "page_M =
     \<lparr>user = Some ''u1'', product = Some oil, route_id = ''p1'', hasVariants = False,
      hasMeasurements = True, selectedVariant = None,
      selectedMeasurement = Some \<lparr>m_label = JStr ''M'', m_price = Some (Fin 100)\<rparr>,
      quantity = 1\<rparr>"

text \<open>The product page with nothing to select, and with the variant \<open>Red\<close> selected.\<close>

definition page_plain :: detail_page where
  "page_plain =
     \<lparr>user = Some ''u1'', product = Some oil, route_id = ''p1'', hasVariants = False,
      hasMeasurements = False, selectedVariant = None, selectedMeasurement = None,
      quantity = 2\<rparr>"

definition page_red :: detail_page where
  "page_red =
     \<lparr>user = Some ''u1'', product = Some oil, route_id = ''p1'', hasVariants = True,
      hasMeasurements = False,
      selectedVariant = Some \<lparr>v_label = ''Red'', v_image_url = None, v_price = Some (Fin 120)\<rparr>,
      selectedMeasurement = None, quantity = 2\<rparr>"

definition line_red :: cart_row where
  "line_red =
     \<lparr>cart_id = ''r1'', user_id = ''u1'', product_id = ''p1'', quantity_litres = 1,
      variant_selection = Some \<lparr>sel_label = ''Red'', sel_image_url = None, sel_price = Some 120\<rparr>,
      variant_price = Some 120, measurement_label = Some ''Volume'',
      measurement_value = JNull, measurement_price = None\<rparr>"

definition line_blue :: cart_row where
  "line_blue =
     \<lparr>cart_id = ''r0'', user_id = ''u1'', product_id = ''p1'', quantity_litres = 4,
      variant_selection = Some \<lparr>sel_label = ''Blue'', sel_image_url = None, sel_price = None\<rparr>,
      variant_price = None, measurement_label = Some ''Volume'',
      measurement_value = JNull, measurement_price = None\<rparr>"

text \<open>A cart of two lines with a subtotal of 150, a coupon worth 20, an empty store.\<close>

definition oil_plain :: product where
  "oil_plain = \<lparr>name = ''Sesame oil'', price_per_litre = 100, offer_price_per_litre = None,
                variant_title = None, measurement_title = None\<rparr>"

definition flat20 :: coupon where
  "flat20 = \<lparr>code = ''FLAT20'', discount_type = Fixed, discount_value = 20,
             min_order_amount = None, max_discount_amount = None,
             valid_until = None, is_active = True\<rparr>"

definition cart_two :: "cart_item list" where
  "cart_two =
     [\<lparr>cart_id = ''r1'', user_id = ''u1'', product_id = ''p1'', quantity_litres = 1,
       variant_selection = Some \<lparr>sel_label = ''Red'', sel_image_url = None, sel_price = Some 20\<rparr>,
       variant_price = None, measurement_label = Some ''Volume'',
       measurement_value = JStr ''1L'', measurement_price = Some 30, products = Some oil\<rparr>,
      \<lparr>cart_id = ''r2'', user_id = ''u1'', product_id = ''p2'', quantity_litres = 1,
       variant_selection = None, variant_price = None, measurement_label = None,
       measurement_value = JNull, measurement_price = None, products = Some oil_plain\<rparr>]"

text \<open>
  A cart whose first line stores a variant price beside a different price inside its
  variant selection, whose second line carries only a measurement price, and whose
  third line has lost its product in the join.
\<close>

definition cart_edge :: "cart_item list" where
  "cart_edge =
     [\<lparr>cart_id = ''r3'', user_id = ''u1'', product_id = ''p1'', quantity_litres = 2,
       variant_selection = Some \<lparr>sel_label = ''Red'', sel_image_url = None, sel_price = Some 99\<rparr>,
       variant_price = Some 40, measurement_label = None,
       measurement_value = JNull, measurement_price = None, products = Some oil\<rparr>,
      \<lparr>cart_id = ''r4'', user_id = ''u1'', product_id = ''p1'', quantity_litres = 1,
       variant_selection = None, variant_price = None, measurement_label = Some ''Volume'',
       measurement_value = JStr ''500ml'', measurement_price = Some 30, products = Some oil\<rparr>,
      \<lparr>cart_id = ''r5'', user_id = ''u1'', product_id = ''p9'', quantity_litres = 1,
       variant_selection = None, variant_price = None, measurement_label = None,
       measurement_value = JNull, measurement_price = None, products = None\<rparr>]"

text \<open>
  A coupon whose minimum order amount is set to 0, and a cart of one line whose
  variant price is -3 (the variant parser keeps a negative price, and no constraint
  of the schema excludes one).
\<close>

definition zero_min :: coupon where
  "zero_min = \<lparr>code = ''Z'', discount_type = Fixed, discount_value = 1,
               min_order_amount = Some 0, max_discount_amount = None,
               valid_until = None, is_active = True\<rparr>"

definition cart_negative :: "cart_item list" where
  "cart_negative =
     [\<lparr>cart_id = ''r6'', user_id = ''u1'', product_id = ''p1'', quantity_litres = 1,
       variant_selection = Some \<lparr>sel_label = ''Red'', sel_image_url = None, sel_price = Some (- 3)\<rparr>,
       variant_price = Some (- 3), measurement_label = None,
       measurement_value = JNull, measurement_price = None, products = Some oil\<rparr>]"

definition empty_store :: order_store where
  "empty_store = \<lparr>orders = [], order_items = []\<rparr>"

section \<open>Properties of the coupon evaluator\<close>

lemma math_min_infinity: "math_min a Infinity = a"
  by (simp add: math_min_def)

text \<open>
  C10. For a percentage coupon whose \<open>max_discount_amount\<close> is \<open>null\<close> or \<open>0\<close>, the cap
  becomes \<open>Infinity\<close> and the discount is \<open>subtotal * discount_value / 100\<close>, unclamped.
\<close>

theorem falsy_cap_is_no_cap:
  assumes "discount_type c = Percentage"
    and "max_discount_amount c = None \<or> max_discount_amount c = Some 0"
  shows "or_infinity (max_discount_amount c) = Infinity
       \<and> discount s (Some c) = s * discount_value c / 100"
  using assms by (auto simp: discount_def or_infinity_def math_min_def)

theorem falsy_cap_is_no_cap_witness:
  "or_infinity (max_discount_amount (save10\<lparr>max_discount_amount := Some 0\<rparr>)) = Infinity
   \<and> discount 200 (Some (save10\<lparr>max_discount_amount := Some 0\<rparr>)) = 20"
  using falsy_cap_is_no_cap [of "save10\<lparr>max_discount_amount := Some 0\<rparr>" 200]
  by (simp add: save10_def)

text \<open>
  C6, as the specification states it: a percentage coupon with a cap set gives
  \<open>min (subtotal * value / 100) cap\<close>. A cap that is set to 0 refutes it: the code
  gives the full 20 on a subtotal of 200 at 10 per cent, not \<open>min 20 0 = 0\<close>.
\<close>

theorem percentage_cap_counterexample:
  "discount_type (save10\<lparr>max_discount_amount := Some 0\<rparr>) = Percentage
   \<and> max_discount_amount (save10\<lparr>max_discount_amount := Some 0\<rparr>) = Some 0
   \<and> discount 200 (Some (save10\<lparr>max_discount_amount := Some 0\<rparr>)) = 20
   \<and> min (200 * discount_value (save10\<lparr>max_discount_amount := Some 0\<rparr>) / 100) 0 = (0::real)"
  by (simp add: save10_def discount_def or_infinity_def math_min_def)

text \<open>
  C6, amended. A fixed coupon's discount is its value, whatever the subtotal, so the
  total is negative for every subtotal below the value (and there is such a subtotal).
  A percentage coupon's discount is \<open>min (subtotal * value / 100) cap\<close> when the cap is
  set and not 0, and \<open>subtotal * value / 100\<close> when the cap is \<open>null\<close> or 0.
\<close>

theorem discount_amended:
  "(discount_type c = Fixed \<longrightarrow>
      discount s (Some c) = discount_value c
      \<and> (s < discount_value c \<longrightarrow> total s (Some c) < 0)
      \<and> (\<exists>s'. s' < discount_value c \<and> total s' (Some c) < 0))
   \<and> (discount_type c = Percentage \<longrightarrow>
        discount s (Some c) =
          (case max_discount_amount c of
             Some cap \<Rightarrow>
               if cap \<noteq> 0 then min (s * discount_value c / 100) cap
               else s * discount_value c / 100
           | None \<Rightarrow> s * discount_value c / 100))"
proof (intro conjI impI)
  assume f: "discount_type c = Fixed"
  show "discount s (Some c) = discount_value c"
    using f by (simp add: discount_def)
  show "total s (Some c) < 0" if "s < discount_value c"
    using f that by (simp add: total_def discount_def)
  have "discount_value c - 1 < discount_value c
        \<and> total (discount_value c - 1) (Some c) < 0"
    using f by (simp add: total_def discount_def)
  then show "\<exists>s'. s' < discount_value c \<and> total s' (Some c) < 0"
    by blast
next
  assume "discount_type c = Percentage"
  then show "discount s (Some c) =
          (case max_discount_amount c of
             Some cap \<Rightarrow>
               if cap \<noteq> 0 then min (s * discount_value c / 100) cap
               else s * discount_value c / 100
           | None \<Rightarrow> s * discount_value c / 100)"
    by (simp add: discount_def or_infinity_def math_min_def split: option.splits)
qed

theorem discount_amended_witness:
  "discount_type flat50 = Fixed
   \<and> discount 30 (Some flat50) = 50 \<and> (30::real) < 50 \<and> total 30 (Some flat50) < 0
   \<and> discount_type (save10\<lparr>max_discount_amount := Some 15\<rparr>) = Percentage
   \<and> discount 200 (Some (save10\<lparr>max_discount_amount := Some 15\<rparr>)) = 15
   \<and> discount 200 (Some save10) = 20"
  using discount_amended [of flat50 30]
    discount_amended [of "save10\<lparr>max_discount_amount := Some 15\<rparr>" 200]
    discount_amended [of save10 200]
  by (simp add: flat50_def save10_def)

text \<open>Codes are unique in \<open>coupons\<close>, so the lookup selects at most one row.\<close>

lemma select_coupon_unique:
  assumes "distinct (map code coupons)" and "c \<in> set coupons"
    and "code c = toUpperCase couponCode" and "is_active c"
  shows "select_coupon coupons couponCode = [c]"
  using assms
proof (induction coupons)
  case Nil
  then show ?case by simp
next
  case (Cons x xs)
  show ?case
  proof (cases "x = c")
    case True
    have "\<forall>y\<in>set xs. code y \<noteq> code c"
      using Cons.prems(1) True by (auto simp: image_iff)
    then have "filter (\<lambda>y. code y = toUpperCase couponCode \<and> is_active y) xs = []"
      using Cons.prems(3) by (auto simp: filter_empty_conv)
    then show ?thesis
      using True Cons.prems(3,4) by (simp add: select_coupon_def)
  next
    case False
    then have in_xs: "c \<in> set xs"
      using Cons.prems(2) by simp
    then have "code x \<noteq> code c"
      using Cons.prems(1) by (auto simp: image_iff)
    moreover have "select_coupon xs couponCode = [c]"
      using Cons.IH Cons.prems in_xs by simp
    ultimately show ?thesis
      using Cons.prems(3) by (simp add: select_coupon_def)
  qed
qed

lemma select_coupon_none:
  assumes "\<forall>c\<in>set coupons. \<not> (code c = toUpperCase couponCode \<and> is_active c)"
  shows "select_coupon coupons couponCode = []"
  using assms by (auto simp: select_coupon_def filter_empty_conv)

text \<open>
  C5, as the specification states it: when the coupon's minimum order amount is set
  and the subtotal is below it, the minimum-order error is reported. A minimum that
  is set to 0 refutes it. The cart of one line with the variant price -3 has the
  subtotal -3, which is below the minimum 0 of the coupon \<open>Z\<close>, and the coupon is
  accepted: \<open>data.min_order_amount && ...\<close> is falsy for 0 and the check is skipped.
\<close>

theorem zero_minimum_counterexample:
  "min_order_amount zero_min = Some 0
   \<and> subtotal cart_negative = - 3
   \<and> subtotal cart_negative < 0
   \<and> applyCoupon [zero_min] ''z'' (subtotal cart_negative) 0 = Inr zero_min"
proof -
  have sub: "subtotal cart_negative = - 3"
    by (simp add: cart_negative_def subtotal_def pricePerLitre_def variantPrice_def
          measurementPrice_def or_zero_def is_number_def)
  have "applyCoupon [zero_min] ''z'' (- 3) 0 = Inr zero_min"
    by (simp add: applyCoupon_def select_coupon_def maybeSingle_def toUpperCase_def
          upper_char_def zero_min_def)
  then show ?thesis
    using sub by (simp add: zero_min_def)
qed

text \<open>
  C5, amended. The code is put in upper case for the lookup, codes being unique in
  the table, and the checks run in this order, the first failure being the one
  reported: (a) no active coupon has that code: ``Invalid coupon code''; (b) the
  coupon has a minimum other than 0 and the subtotal is below it: the minimum-order
  error, also when the coupon has expired as well; (c) the coupon has an end date and
  now is past it: ``Coupon has expired''; otherwise the coupon is returned. A minimum
  of 0 is never reported; for a subtotal that is not negative this is what the
  original wording says too.
\<close>

theorem coupon_checks_in_order:
  assumes "distinct (map code coupons)"
  shows "((\<forall>c\<in>set coupons. \<not> (code c = toUpperCase couponCode \<and> is_active c)) \<longrightarrow>
            applyCoupon coupons couponCode s now = Inl InvalidCouponCode)
       \<and> (c \<in> set coupons \<and> code c = toUpperCase couponCode \<and> is_active c \<longrightarrow>
            applyCoupon coupons couponCode s now =
              (case min_order_amount c of
                 Some m \<Rightarrow>
                   if m \<noteq> 0 \<and> s < m then Inl (MinimumOrderAmount m)
                   else (case valid_until c of
                           Some t \<Rightarrow> if t < now then Inl CouponExpired else Inr c
                         | None \<Rightarrow> Inr c)
               | None \<Rightarrow>
                   (case valid_until c of
                      Some t \<Rightarrow> if t < now then Inl CouponExpired else Inr c
                    | None \<Rightarrow> Inr c)))
       \<and> (c \<in> set coupons \<and> code c = toUpperCase couponCode \<and> is_active c
            \<and> min_order_amount c = Some m \<and> m \<noteq> 0 \<and> s < m
            \<and> valid_until c = Some t \<and> t < now \<longrightarrow>
            applyCoupon coupons couponCode s now = Inl (MinimumOrderAmount m))
       \<and> (c \<in> set coupons \<and> code c = toUpperCase couponCode \<and> is_active c
            \<and> min_order_amount c = Some m \<and> s < m \<and> 0 \<le> s \<longrightarrow>
            applyCoupon coupons couponCode s now = Inl (MinimumOrderAmount m))"
proof (intro conjI impI)
  assume "\<forall>c\<in>set coupons. \<not> (code c = toUpperCase couponCode \<and> is_active c)"
  then have "select_coupon coupons couponCode = []"
    by (rule select_coupon_none)
  then show "applyCoupon coupons couponCode s now = Inl InvalidCouponCode"
    by (simp add: applyCoupon_def maybeSingle_def)
next
  assume "c \<in> set coupons \<and> code c = toUpperCase couponCode \<and> is_active c"
  then have sel: "select_coupon coupons couponCode = [c]"
    using assms select_coupon_unique by blast
  show "applyCoupon coupons couponCode s now =
              (case min_order_amount c of
                 Some m \<Rightarrow>
                   if m \<noteq> 0 \<and> s < m then Inl (MinimumOrderAmount m)
                   else (case valid_until c of
                           Some t \<Rightarrow> if t < now then Inl CouponExpired else Inr c
                         | None \<Rightarrow> Inr c)
               | None \<Rightarrow>
                   (case valid_until c of
                      Some t \<Rightarrow> if t < now then Inl CouponExpired else Inr c
                    | None \<Rightarrow> Inr c))"
    by (simp add: applyCoupon_def maybeSingle_def sel split: option.splits)
next
  assume a: "c \<in> set coupons \<and> code c = toUpperCase couponCode \<and> is_active c
            \<and> min_order_amount c = Some m \<and> m \<noteq> 0 \<and> s < m
            \<and> valid_until c = Some t \<and> t < now"
  then have sel: "select_coupon coupons couponCode = [c]"
    using assms select_coupon_unique by blast
  show "applyCoupon coupons couponCode s now = Inl (MinimumOrderAmount m)"
    using a by (simp add: applyCoupon_def maybeSingle_def sel)
next
  assume a: "c \<in> set coupons \<and> code c = toUpperCase couponCode \<and> is_active c
            \<and> min_order_amount c = Some m \<and> s < m \<and> 0 \<le> s"
  then have sel: "select_coupon coupons couponCode = [c]"
    using assms select_coupon_unique by blast
  have "m \<noteq> 0"
    using a by auto
  then show "applyCoupon coupons couponCode s now = Inl (MinimumOrderAmount m)"
    using a by (simp add: applyCoupon_def maybeSingle_def sel)
qed

theorem coupon_checks_in_order_witness:
  "applyCoupon [flat50, save10] ''nosuch'' 200 2000 = Inl InvalidCouponCode
   \<and> applyCoupon [flat50, save10] ''save10'' 50 2000 = Inl (MinimumOrderAmount 100)
   \<and> applyCoupon [flat50, save10] ''save10'' 200 2000 = Inl CouponExpired
   \<and> applyCoupon [flat50, save10] ''save10'' 200 500 = Inr save10
   \<and> applyCoupon [zero_min] ''z'' (- 3) 0 = Inr zero_min"
proof -
  have d: "distinct (map code [flat50, save10])" "distinct (map code [zero_min])"
    by (simp_all add: flat50_def save10_def)
  have u: "toUpperCase ''save10'' = ''SAVE10''" "toUpperCase ''nosuch'' = ''NOSUCH''"
    "toUpperCase ''z'' = ''Z''"
    by (simp_all add: toUpperCase_def upper_char_def)
  have 1: "applyCoupon [flat50, save10] ''nosuch'' 200 2000 = Inl InvalidCouponCode"
    using coupon_checks_in_order
      [where s = 200 and coupons = "[flat50, save10]" and couponCode = "''nosuch''"
         and now = 2000] d u
    by (simp add: flat50_def save10_def)
  have 2: "applyCoupon [flat50, save10] ''save10'' 50 2000 = Inl (MinimumOrderAmount 100)"
    using coupon_checks_in_order
      [where s = 50 and coupons = "[flat50, save10]" and couponCode = "''save10''"
         and now = 2000 and c = save10 and m = 100 and t = 1000] d u
    by (simp add: flat50_def save10_def)
  have 3: "applyCoupon [flat50, save10] ''save10'' 200 2000 = Inl CouponExpired"
    using coupon_checks_in_order
      [where s = 200 and coupons = "[flat50, save10]" and couponCode = "''save10''"
         and now = 2000 and c = save10] d u
    by (simp add: flat50_def save10_def)
  have 4: "applyCoupon [flat50, save10] ''save10'' 200 500 = Inr save10"
    using coupon_checks_in_order
      [where s = 200 and coupons = "[flat50, save10]" and couponCode = "''save10''"
         and now = 500 and c = save10] d u
    by (simp add: flat50_def save10_def)
  have 5: "applyCoupon [zero_min] ''z'' (- 3) 0 = Inr zero_min"
    using coupon_checks_in_order
      [where s = "- 3" and coupons = "[zero_min]" and couponCode = "''z''"
         and now = 0 and c = zero_min] d u
    by (simp add: zero_min_def)
  show ?thesis using 1 2 3 4 5 by simp
qed

section \<open>Properties of the price resolver\<close>

text \<open>
  \<open>effectivePrice\<close> decides between the two schemes by the truthiness of
  \<open>vPrice || mPrice\<close>, so it follows the rule of the specification whenever one of the
  option prices is not 0, and whenever no option carries a price.
\<close>

lemma effectivePrice_nonzero:
  assumes "vPrice sv \<noteq> 0 \<or> mPrice sm \<noteq> 0"
  shows "effectivePrice p sv sm = vPrice sv + mPrice sm"
  using assms by (simp add: effectivePrice_def truthy_number_def)

lemma effectivePrice_no_option_price:
  assumes "carried_price (case sv of Some v \<Rightarrow> v_price v | None \<Rightarrow> None) = None"
    and "carried_price (case sm of Some m \<Rightarrow> m_price m | None \<Rightarrow> None) = None"
  shows "effectivePrice p sv sm =
           spec_effective_price None None (offer_price_per_litre p) (price_per_litre p)"
proof -
  have "vPrice sv = 0"
    using assms(1)
    by (auto simp: vPrice_def numeric_price_def carried_price_def
             split: option.splits jsnum.splits)
  moreover have "mPrice sm = 0"
    using assms(2)
    by (auto simp: mPrice_def numeric_price_def carried_price_def
             split: option.splits jsnum.splits)
  ultimately show ?thesis
    by (simp add: effectivePrice_def spec_effective_price_def truthy_number_def carries_def)
qed

text \<open>
  C1. The rule says: a selection that carries a numeric price decides the effective
  price, whatever the sale price. The variant \<open>{label: 'Red', price: 0}\<close> is accepted
  by the variant parser with its price; selected alone on a product with base price
  100 and sale price 80, it carries the price 0, and the rule gives 0 + 0 = 0. The
  code gives 80: \<open>vPrice || mPrice\<close> is \<open>0 || 0\<close>, which is falsy. The checkout
  page, which tests \<open>typeof variantPrice === 'number'\<close>, prices the cart line of this
  selection at 0.
\<close>

theorem effectivePrice_zero_price_ignored:
  "parseVariantOption parseFloat (JObj [(''label'', JStr ''Red''), (''price'', JNum (Fin 0))])
     = Some \<lparr>v_label = ''Red'', v_image_url = None, v_price = Some (Fin 0)\<rparr>
   \<and> effectivePrice oil
       (Some \<lparr>v_label = ''Red'', v_image_url = None, v_price = Some (Fin 0)\<rparr>) None = 80
   \<and> spec_effective_price (carried_price (Some (Fin 0))) (carried_price None)
       (offer_price_per_litre oil) (price_per_litre oil) = 0
   \<and> pricePerLitre
       \<lparr>cart_id = ''r1'', user_id = ''u1'', product_id = ''p1'', quantity_litres = 1,
        variant_selection =
          variantPayload (Some \<lparr>v_label = ''Red'', v_image_url = None, v_price = Some (Fin 0)\<rparr>),
        variant_price = stored_number (Some (Fin 0)), measurement_label = None,
        measurement_value = JNull, measurement_price = None, products = Some oil\<rparr> = 0"
  by (simp add: parseVariantOption_def variant_of_object_def price_field_def drop_nan_def
        trim_def is_space_def effectivePrice_def vPrice_def mPrice_def numeric_price_def
        truthy_number_def spec_effective_price_def carried_price_def carries_def oil_def
        pricePerLitre_def variantPrice_def measurementPrice_def is_number_def or_zero_def
        variantPayload_def stored_number_def)

section \<open>Properties of the option parsers\<close>

text \<open>
  In the JSON branch of the measurement parser the price is whatever \<open>Number\<close> returns
  for a truthy \<open>parsed.price\<close>, and the label is \<open>parsed.label\<close> as it stands: nothing
  is filtered or trimmed there.
\<close>

lemma measurement_of_string_json:
  assumes "trim v \<noteq> []" and "json_shaped (trim v)"
    and "json_parse (trim v) = Some parsed"
    and "truthy parsed" and "truthy (get_prop parsed ''label'')"
    and "truthy (get_prop parsed ''price'')"
  shows "measurement_of_string json_parse to_number v =
           Some \<lparr>m_label = get_prop parsed ''label'',
                 m_price = Some (to_number (get_prop parsed ''price''))\<rparr>"
  using assms by (simp add: measurement_of_string_def measurement_of_parsed_def)

text \<open>
  C7. A price that parses to \<open>NaN\<close> must be dropped from the option, and labels must be
  trimmed. The measurement value \<open>{"label":"M","price":"abc"}\<close>, a JSON text, is parsed
  and \<open>Number("abc")\<close>, which is \<open>NaN\<close>, is stored as the price of the option. The
  object branch of the same parser drops that price. The JSON branch does not trim
  the label either.
\<close>

theorem measurement_json_keeps_nan:
  \<open>parseMeasurementOption JSON_parse Number parseFloat (JStr ''{"label":"M","price":"abc"}'')
     = Some \<lparr>m_label = JStr ''M'', m_price = Some NaN\<rparr>
   \<and> parseMeasurementOption JSON_parse Number parseFloat
       (JObj [(''label'', JStr ''M''), (''price'', JStr ''abc'')])
     = Some \<lparr>m_label = JStr ''M'', m_price = None\<rparr>
   \<and> parseMeasurementOption JSON_parse Number parseFloat (JStr ''{"label":" M "}'')
     = Some \<lparr>m_label = JStr '' M '', m_price = None\<rparr>\<close>
  by code_simp

text \<open>
  C8. Parsing the parser's own output must give the same option. The option that the
  measurement parser returns for \<open>{"label":"M","price":"abc"}\<close> has the price \<open>NaN\<close>;
  given to the parser again, it comes back without a price.
\<close>

theorem measurement_reparse_changes_option:
  \<open>parseMeasurementOption JSON_parse Number parseFloat (JStr ''{"label":"M","price":"abc"}'')
     = Some \<lparr>m_label = JStr ''M'', m_price = Some NaN\<rparr>
   \<and> parseMeasurementOption JSON_parse Number parseFloat
       (measurement_js \<lparr>m_label = JStr ''M'', m_price = Some NaN\<rparr>)
     = Some \<lparr>m_label = JStr ''M'', m_price = None\<rparr>\<close>
  by code_simp

subsection \<open>Fixed points\<close>

text \<open>\<open>trim\<close> leaves no white space at either end, so trimming twice changes nothing.\<close>

lemma dropWhile_self:
  assumes "xs = [] \<or> \<not> P (hd xs)"
  shows "dropWhile P xs = xs"
  using assms by (cases xs) auto

lemma trim_last:
  assumes "trim s \<noteq> []"
  shows "\<not> is_space (last (trim s))"
proof -
  let ?b = "dropWhile is_space (rev (dropWhile is_space s))"
  have b: "?b \<noteq> []"
    using assms by (simp add: trim_def)
  have "last (trim s) = hd ?b"
    using b by (simp add: trim_def last_rev)
  then show ?thesis
    using b hd_dropWhile [of is_space "rev (dropWhile is_space s)"] by simp
qed

lemma trim_hd:
  assumes "trim s \<noteq> []"
  shows "\<not> is_space (hd (trim s))"
proof -
  let ?a = "dropWhile is_space s"
  let ?b = "dropWhile is_space (rev ?a)"
  have b: "?b \<noteq> []"
    using assms by (simp add: trim_def)
  then obtain x where x: "x \<in> set (rev ?a)" "\<not> is_space x"
    by (auto simp: dropWhile_eq_Nil_conv)
  have a: "?a \<noteq> []"
    using x(1) by (metis empty_iff list.set(1) rev.simps(1))
  have "hd (trim s) = last ?b"
    using b by (simp add: trim_def hd_rev)
  also have "\<dots> = last (rev ?a)"
    using x by (rule dropWhile_last)
  also have "\<dots> = hd ?a"
    using a by (simp add: last_rev)
  finally show ?thesis
    using a hd_dropWhile [of is_space s] by simp
qed

lemma trim_idem: "trim (trim s) = trim s"
proof (cases "trim s = []")
  case True
  have "trim [] = []"
    by (simp add: trim_def)
  then show ?thesis
    using True by simp
next
  case False
  have 1: "dropWhile is_space (trim s) = trim s"
    using trim_hd [OF False] by (intro dropWhile_self) simp
  have "hd (rev (trim s)) = last (trim s)"
    using False by (simp add: hd_rev)
  then have 2: "dropWhile is_space (rev (trim s)) = rev (trim s)"
    using trim_last [OF False] by (intro dropWhile_self) simp
  show ?thesis
    unfolding trim_def [of "trim s"] 1 2 by simp
qed

lemma drop_nan_cases: "drop_nan p = None \<or> (\<exists>x. drop_nan p = Some (Fin x))"
  by (auto simp: drop_nan_def split: option.splits jsnum.splits)

lemma variant_of_object_normal:
  assumes "variant_of_object parse_float v = Some x"
  shows "variant_normal x"
proof -
  have "drop_nan p \<noteq> Some NaN" for p
    using drop_nan_cases [of p] by auto
  then show ?thesis
    using assms
    by (auto simp: variant_of_object_def variant_normal_def Let_def trim_idem
             split: if_splits jsval.splits)
qed

lemma parseVariantOption_normal:
  assumes "parseVariantOption parse_float v = Some x"
  shows "variant_normal x"
proof (cases v)
  case (JStr s)
  then show ?thesis
    using assms by (auto simp: parseVariantOption_def variant_normal_def Let_def trim_idem
                         split: if_splits)
next
  case (JObj kvs)
  then show ?thesis
    using assms variant_of_object_normal [of parse_float v x]
    by (simp add: parseVariantOption_def split: if_splits)
next
  case (JArr vs)
  then show ?thesis
    using assms variant_of_object_normal [of parse_float v x]
    by (simp add: parseVariantOption_def split: if_splits)
qed (use assms in \<open>simp_all add: parseVariantOption_def split: if_splits\<close>)

lemma variant_fixed_point:
  assumes "variant_normal x"
  shows "parseVariantOption parse_float (variant_js x) = Some x"
proof -
  obtain l i p where x: "x = \<lparr>v_label = l, v_image_url = i, v_price = p\<rparr>"
    by (cases x) auto
  have p: "p = None \<or> (\<exists>r. p = Some (Fin r))"
    using assms x by (cases p) (auto simp: variant_normal_def intro: jsnum.exhaust)
  have i: "i = None \<or> (\<exists>u. i = Some u \<and> u \<noteq> [])"
    using assms x by (cases i) (auto simp: variant_normal_def)
  show ?thesis
    using assms p i
    by (auto simp: x parseVariantOption_def variant_js_def variant_of_object_def
          variant_normal_def price_field_def drop_nan_def)
qed

text \<open>
  Every option the variant parser returns is a fixed point of the parser, whatever
  \<open>parseFloat\<close> computes.
\<close>

theorem variant_parser_idempotent:
  assumes "parseVariantOption parse_float v = Some x"
  shows "parseVariantOption parse_float (variant_js x) = Some x"
  using assms parseVariantOption_normal variant_fixed_point by blast

lemma measurement_label_truthy:
  assumes "parseMeasurementOption json_parse to_number parse_float v = Some m"
  shows "truthy (m_label m)"
  using assms
  by (auto simp: parseMeasurementOption_def measurement_of_string_def
        measurement_of_parsed_def measurement_of_object_def Let_def
        split: if_splits jsval.splits option.splits)

lemma measurement_fixed_point:
  assumes "truthy (m_label m)" and "m_price m \<noteq> Some NaN"
  shows "parseMeasurementOption json_parse to_number parse_float (measurement_js m) = Some m"
proof -
  obtain l p where m: "m = \<lparr>m_label = l, m_price = p\<rparr>"
    by (cases m) auto
  have p: "p = None \<or> (\<exists>r. p = Some (Fin r))"
    using assms m by (cases p) (auto intro: jsnum.exhaust)
  show ?thesis
    using assms p
    by (auto simp: m parseMeasurementOption_def measurement_js_def measurement_of_object_def
          price_field_def drop_nan_def)
qed

text \<open>
  Every option the measurement parser returns with a price other than \<open>NaN\<close>, or
  with no price, is a fixed point of the parser, whatever the library functions
  compute.
\<close>

theorem measurement_parser_idempotent_without_nan:
  assumes "parseMeasurementOption json_parse to_number parse_float v = Some m"
    and "m_price m \<noteq> Some NaN"
  shows "parseMeasurementOption json_parse to_number parse_float (measurement_js m) = Some m"
  using assms measurement_label_truthy measurement_fixed_point by blast

text \<open>
  A measurement string that is not shaped like JSON (after trimming it does not start
  with a brace or bracket, or does not contain \<open>label\<close>), or that \<open>JSON.parse\<close>
  rejects, gives the trimmed string as the label and no price; the empty string gives
  \<open>null\<close>. In the first case \<open>JSON.parse\<close> is not consulted: the result is the same
  for every \<open>json_parse\<close>.
\<close>

theorem measurement_string_fallback:
  assumes "\<not> json_shaped (trim s) \<or> json_parse (trim s) = None"
  shows "measurement_of_string json_parse to_number s =
           (if trim s = [] then None else Some \<lparr>m_label = JStr (trim s), m_price = None\<rparr>)"
  using assms by (auto simp: measurement_of_string_def Let_def)


theorem variant_parser_idempotent_witness:
  "parseVariantOption parseFloat
       (JObj [(''label'', JStr '' Red ''), (''image_url'', JStr ''red.png''),
              (''price'', JStr ''12.5'')])
     = Some \<lparr>v_label = ''Red'', v_image_url = Some ''red.png'', v_price = Some (Fin (25 / 2))\<rparr>
   \<and> parseVariantOption parseFloat
       (variant_js \<lparr>v_label = ''Red'', v_image_url = Some ''red.png'',
                    v_price = Some (Fin (25 / 2))\<rparr>)
     = Some \<lparr>v_label = ''Red'', v_image_url = Some ''red.png'', v_price = Some (Fin (25 / 2))\<rparr>"
proof -
  have 1: "parseVariantOption parseFloat
       (JObj [(''label'', JStr '' Red ''), (''image_url'', JStr ''red.png''),
              (''price'', JStr ''12.5'')])
     = Some \<lparr>v_label = ''Red'', v_image_url = Some ''red.png'', v_price = Some (Fin (25 / 2))\<rparr>"
    by code_simp
  show ?thesis
    using 1 variant_parser_idempotent [OF 1] by simp
qed

theorem measurement_parser_idempotent_without_nan_witness:
  \<open>parseMeasurementOption JSON_parse Number parseFloat (JStr ''{"label":"M","price":100}'')
     = Some \<lparr>m_label = JStr ''M'', m_price = Some (Fin 100)\<rparr>
   \<and> parseMeasurementOption JSON_parse Number parseFloat
       (measurement_js \<lparr>m_label = JStr ''M'', m_price = Some (Fin 100)\<rparr>)
     = Some \<lparr>m_label = JStr ''M'', m_price = Some (Fin 100)\<rparr>\<close>
proof -
  have 1: \<open>parseMeasurementOption JSON_parse Number parseFloat
             (JStr ''{"label":"M","price":100}'')
           = Some \<lparr>m_label = JStr ''M'', m_price = Some (Fin 100)\<rparr>\<close>
    by code_simp
  show ?thesis
    using 1 measurement_parser_idempotent_without_nan [OF 1] by simp
qed

theorem measurement_string_fallback_witness:
  \<open>measurement_of_string JSON_parse Number '' 500 ml ''
     = Some \<lparr>m_label = JStr ''500 ml'', m_price = None\<rparr>
   \<and> measurement_of_string JSON_parse Number ''{"label":''
     = Some \<lparr>m_label = JStr ''{"label":'', m_price = None\<rparr>
   \<and> measurement_of_string JSON_parse Number ''   '' = None\<close>
proof -
  have t: \<open>trim '' 500 ml '' = ''500 ml''\<close> \<open>trim ''{"label":'' = ''{"label":''\<close>
    \<open>trim ''   '' = []\<close>
    by (simp_all add: trim_def is_space_def)
  have a: \<open>\<not> json_shaped ''500 ml''\<close>
    by (simp add: json_shaped_def startsWith_def)
  have b: \<open>JSON_parse ''{"label":'' = None\<close>
    by code_simp
  show ?thesis
    using measurement_string_fallback [of \<open>'' 500 ml ''\<close> JSON_parse Number]
      measurement_string_fallback [of \<open>''{"label":''\<close> JSON_parse Number]
      measurement_string_fallback [of \<open>''   ''\<close> JSON_parse Number]
      a b
    by (simp add: t json_shaped_def startsWith_def)
qed

section \<open>Properties of the cart line matcher\<close>

text \<open>
  A line whose \<open>measurement_value\<close> is a string matches only a candidate whose
  measurement label is that very string: the string is compared as it stands.
\<close>

lemma line_matches_string_value:
  assumes "measurement_value item = JStr s"
  shows "line_matches sv sm item \<longleftrightarrow>
           itemVar item = currVar sv \<and> (\<exists>m. sm = Some m \<and> m_label m = JStr s)"
proof -
  have "strict_eq (JStr s) (nullish l JNull) \<longleftrightarrow> l = JStr s" for l
    by (cases l) auto
  then have "strict_eq (JStr s) (currMeas sm) \<longleftrightarrow> (\<exists>m. sm = Some m \<and> m_label m = JStr s)"
    by (cases sm) (auto simp: currMeas_def)
  then show ?thesis
    using assms by (simp add: line_matches_def itemMeas_def)
qed

text \<open>
  C3. A measurement stored as a JSON-encoded object containing a label must be
  unwrapped to the bare label before the comparison. The column is TEXT, so such a
  measurement reaches the matcher as a string. For the line whose
  \<open>measurement_value\<close> is \<open>{"label":"M","price":100}\<close> and the candidate measurement
  \<open>M\<close> (which the measurement parser produces from that very text), the cart page
  shows the unwrapped label \<open>M\<close>, but the matcher compares the whole text with \<open>M\<close>,
  finds no match, and add-to-cart inserts a second line.
\<close>

theorem matcher_does_not_unwrap_json_text:
  \<open>parseMeasurementOption JSON_parse Number parseFloat (JStr ''{"label":"M","price":100}'')
     = Some \<lparr>m_label = JStr ''M'', m_price = Some (Fin 100)\<rparr>
   \<and> displayed_measurement JSON_parse (measurement_value line_json_M) = JStr ''M''
   \<and> \<not> line_matches None (Some \<lparr>m_label = JStr ''M'', m_price = Some (Fin 100)\<rparr>) line_json_M
   \<and> addToCart page_M ''r2'' [line_json_M]
       = Inr [line_json_M, new_cart_row page_M ''u1'' oil ''r2'']\<close>
  by code_simp

text \<open>Rows have distinct ids (the primary key); an update by id changes one row.\<close>

lemma update_quantity_distinct:
  assumes "distinct (map cart_id rows)" and "i < length rows"
  shows "update_quantity (cart_id (rows ! i)) q rows = rows[i := (rows ! i)\<lparr>quantity_litres := q\<rparr>]"
proof (rule nth_equalityI)
  show "length (update_quantity (cart_id (rows ! i)) q rows)
          = length (rows[i := (rows ! i)\<lparr>quantity_litres := q\<rparr>])"
    by (simp add: update_quantity_def)
next
  fix j
  assume "j < length (update_quantity (cart_id (rows ! i)) q rows)"
  then have j: "j < length rows"
    by (simp add: update_quantity_def)
  have "cart_id (rows ! j) = cart_id (rows ! i) \<longleftrightarrow> j = i"
    using assms j nth_eq_iff_index_eq [of "map cart_id rows" j i] by auto
  then show "update_quantity (cart_id (rows ! i)) q rows ! j
               = rows[i := (rows ! i)\<lparr>quantity_litres := q\<rparr>] ! j"
    using j assms(2) by (auto simp: update_quantity_def)
qed

lemma update_quantity_fresh:
  assumes "rid \<notin> cart_id ` set rows"
  shows "update_quantity rid q rows = rows"
  using assms by (induction rows) (auto simp: update_quantity_def)

lemma addToCart_guards:
  assumes "user pg = Some uid" and "product pg = Some p"
    and "\<not> (hasVariants pg \<and> selectedVariant pg = None)"
    and "\<not> (hasMeasurements pg \<and> selectedMeasurement pg = None)"
  shows "addToCart pg new_id rows =
           (case find (line_matches (selectedVariant pg) (selectedMeasurement pg))
                   (existing_lines uid (route_id pg) rows) of
              Some match \<Rightarrow>
                Inr (update_quantity (cart_id match) (quantity_litres match + quantity pg) rows)
            | None \<Rightarrow> Inr (rows @ [new_cart_row pg uid p new_id]))"
  using assms by (auto simp: addToCart_def)

lemma addToCart_match:
  assumes "user pg = Some uid" and "product pg = Some p"
    and "\<not> (hasVariants pg \<and> selectedVariant pg = None)"
    and "\<not> (hasMeasurements pg \<and> selectedMeasurement pg = None)"
    and "distinct (map cart_id rows)"
    and "\<exists>r\<in>set rows. user_id r = uid \<and> product_id r = route_id pg
            \<and> line_matches (selectedVariant pg) (selectedMeasurement pg) r"
  shows "\<exists>i<length rows. user_id (rows ! i) = uid \<and> product_id (rows ! i) = route_id pg
            \<and> line_matches (selectedVariant pg) (selectedMeasurement pg) (rows ! i)
            \<and> addToCart pg new_id rows =
                Inr (rows[i := (rows ! i)\<lparr>quantity_litres :=
                                   quantity_litres (rows ! i) + quantity pg\<rparr>])"
proof -
  let ?P = "line_matches (selectedVariant pg) (selectedMeasurement pg)"
  let ?ex = "existing_lines uid (route_id pg) rows"
  from assms(6) have "\<exists>r\<in>set ?ex. ?P r"
    by (auto simp: existing_lines_def)
  then obtain m where m: "find ?P ?ex = Some m"
    by (cases "find ?P ?ex") (auto simp: find_None_iff)
  then have "m \<in> set ?ex" and pm: "?P m"
    by (auto simp: find_Some_iff)
  then have "m \<in> set rows" and um: "user_id m = uid" and prm: "product_id m = route_id pg"
    by (auto simp: existing_lines_def)
  then obtain i where i: "i < length rows" "rows ! i = m"
    by (auto simp: in_set_conv_nth)
  have "addToCart pg new_id rows =
          Inr (update_quantity (cart_id m) (quantity_litres m + quantity pg) rows)"
    using addToCart_guards [OF assms(1-4)] m by simp
  then have "addToCart pg new_id rows =
          Inr (rows[i := (rows ! i)\<lparr>quantity_litres :=
                                   quantity_litres (rows ! i) + quantity pg\<rparr>])"
    using update_quantity_distinct [OF assms(5) i(1)] i(2) by simp
  then show ?thesis
    using i um prm pm by blast
qed

lemma addToCart_insert:
  assumes "user pg = Some uid" and "product pg = Some p"
    and "\<not> (hasVariants pg \<and> selectedVariant pg = None)"
    and "\<not> (hasMeasurements pg \<and> selectedMeasurement pg = None)"
    and "\<forall>r\<in>set rows. \<not> (user_id r = uid \<and> product_id r = route_id pg
            \<and> line_matches (selectedVariant pg) (selectedMeasurement pg) r)"
  shows "addToCart pg new_id rows = Inr (rows @ [new_cart_row pg uid p new_id])"
proof -
  have "find (line_matches (selectedVariant pg) (selectedMeasurement pg))
          (existing_lines uid (route_id pg) rows) = None"
    using assms(5) by (auto simp: find_None_iff existing_lines_def)
  then show ?thesis
    using addToCart_guards [OF assms(1-4)] by simp
qed

lemma new_row_matches_empty_selection:
  assumes "selectedVariant pg = None" and "selectedMeasurement pg = None"
  shows "line_matches None None (new_cart_row pg uid p new_id)"
  using assms
  by (simp add: line_matches_def itemVar_def currVar_def itemMeas_def currMeas_def
        new_cart_row_def variantPayload_def)

lemma addToCart_twice:
  assumes "user pg = Some uid" and "product pg = Some p"
    and "selectedVariant pg = None" and "selectedMeasurement pg = None"
    and "\<not> hasVariants pg" and "\<not> hasMeasurements pg"
    and "existing_lines uid (route_id pg) rows = []"
    and "id1 \<notin> cart_id ` set rows"
  shows "addToCart pg id1 rows = Inr (rows @ [new_cart_row pg uid p id1])
       \<and> addToCart (pg\<lparr>quantity := q2\<rparr>) id2 (rows @ [new_cart_row pg uid p id1]) =
           Inr (rows @ [(new_cart_row pg uid p id1)\<lparr>quantity_litres := quantity pg + q2\<rparr>])"
proof -
  let ?new = "new_cart_row pg uid p id1"
  have first: "addToCart pg id1 rows = Inr (rows @ [?new])"
    using addToCart_guards [of pg uid p id1 rows] assms by simp
  have ex: "existing_lines uid (route_id pg) (rows @ [?new]) = [?new]"
    using assms(7) by (simp add: existing_lines_def new_cart_row_def)
  have m: "line_matches None None ?new"
    using new_row_matches_empty_selection [OF assms(3,4)] .
  have upd: "update_quantity id1 q (rows @ [?new]) = rows @ [?new\<lparr>quantity_litres := q\<rparr>]" for q
    using update_quantity_fresh [OF assms(8)]
    by (simp add: update_quantity_def new_cart_row_def)
  have "addToCart (pg\<lparr>quantity := q2\<rparr>) id2 (rows @ [?new]) =
          Inr (update_quantity (cart_id ?new) (quantity_litres ?new + q2) (rows @ [?new]))"
    using addToCart_guards [of "pg\<lparr>quantity := q2\<rparr>" uid p id2 "rows @ [?new]"] assms ex m
    by simp
  then show ?thesis
    using first upd by (simp add: new_cart_row_def)
qed


text \<open>
  C4. For a signed-in user on a loaded product whose required selections are made:
  when a line of this user and product matches, add-to-cart adds the requested
  quantity to that line and leaves the number of lines and every other line as they
  are; when no line matches, it appends one line holding the user, the product, the
  quantity, the selected variant (label, image, price), the variant price, the
  measurement label and the measurement price as they are at that moment; and adding
  with no variant and no measurement twice, to a cart without a line of this product,
  leaves one line of this product, with the sum of the two quantities.
\<close>

theorem add_to_cart_merges_or_inserts:
  assumes "user pg = Some uid" and "product pg = Some p"
    and "\<not> (hasVariants pg \<and> selectedVariant pg = None)"
    and "\<not> (hasMeasurements pg \<and> selectedMeasurement pg = None)"
    and "distinct (map cart_id rows)"
  shows "((\<exists>r\<in>set rows. user_id r = uid \<and> product_id r = route_id pg
             \<and> line_matches (selectedVariant pg) (selectedMeasurement pg) r) \<longrightarrow>
          (\<exists>i<length rows. user_id (rows ! i) = uid \<and> product_id (rows ! i) = route_id pg
             \<and> line_matches (selectedVariant pg) (selectedMeasurement pg) (rows ! i)
             \<and> addToCart pg new_id rows =
                 Inr (rows[i := (rows ! i)\<lparr>quantity_litres :=
                                    quantity_litres (rows ! i) + quantity pg\<rparr>])))
       \<and> ((\<forall>r\<in>set rows. \<not> (user_id r = uid \<and> product_id r = route_id pg
             \<and> line_matches (selectedVariant pg) (selectedMeasurement pg) r)) \<longrightarrow>
          addToCart pg new_id rows = Inr (rows @ [new_cart_row pg uid p new_id])
          \<and> cart_id (new_cart_row pg uid p new_id) = new_id
          \<and> user_id (new_cart_row pg uid p new_id) = uid
          \<and> product_id (new_cart_row pg uid p new_id) = route_id pg
          \<and> quantity_litres (new_cart_row pg uid p new_id) = quantity pg
          \<and> variant_selection (new_cart_row pg uid p new_id) =
              map_option (\<lambda>v. \<lparr>sel_label = v_label v, sel_image_url = v_image_url v,
                                 sel_price = stored_number (v_price v)\<rparr>) (selectedVariant pg)
          \<and> variant_price (new_cart_row pg uid p new_id) =
              (case selectedVariant pg of
                 Some v \<Rightarrow> stored_number (v_price v)
               | None \<Rightarrow> None)
          \<and> measurement_label (new_cart_row pg uid p new_id) = or_null (measurement_title p)
          \<and> measurement_value (new_cart_row pg uid p new_id) =
              (case selectedMeasurement pg of
                 Some m \<Rightarrow> nullish (m_label m) JNull
               | None \<Rightarrow> JNull)
          \<and> measurement_price (new_cart_row pg uid p new_id) =
              (case selectedMeasurement pg of
                 Some m \<Rightarrow> stored_number (m_price m)
               | None \<Rightarrow> None))
       \<and> (selectedVariant pg = None \<and> selectedMeasurement pg = None
            \<and> existing_lines uid (route_id pg) rows = [] \<and> new_id \<notin> cart_id ` set rows \<longrightarrow>
          addToCart pg new_id rows = Inr (rows @ [new_cart_row pg uid p new_id])
          \<and> addToCart (pg\<lparr>quantity := qty\<rparr>) next_id
                (rows @ [new_cart_row pg uid p new_id]) =
              Inr (rows @ [(new_cart_row pg uid p new_id)
                             \<lparr>quantity_litres := quantity pg + qty\<rparr>])
          \<and> existing_lines uid (route_id pg)
              (rows @ [(new_cart_row pg uid p new_id)
                         \<lparr>quantity_litres := quantity pg + qty\<rparr>]) =
              [(new_cart_row pg uid p new_id)\<lparr>quantity_litres := quantity pg + qty\<rparr>])"
proof -
  define row where "row = new_cart_row pg uid p new_id"
  note row = row_def
  have g: "user pg = Some uid" "product pg = Some p"
    "\<not> (hasVariants pg \<and> selectedVariant pg = None)"
    "\<not> (hasMeasurements pg \<and> selectedMeasurement pg = None)"
    using assms(1-4) by simp_all
  have d: "distinct (map cart_id rows)"
    using assms(5) .
  have merge: "\<exists>i<length rows. user_id (rows ! i) = uid \<and> product_id (rows ! i) = route_id pg
             \<and> line_matches (selectedVariant pg) (selectedMeasurement pg) (rows ! i)
             \<and> addToCart pg new_id rows =
                 Inr (rows[i := (rows ! i)\<lparr>quantity_litres :=
                                    quantity_litres (rows ! i) + quantity pg\<rparr>])"
    if "\<exists>r\<in>set rows. user_id r = uid \<and> product_id r = route_id pg
             \<and> line_matches (selectedVariant pg) (selectedMeasurement pg) r"
    using addToCart_match [OF g d that] .
  have ins: "addToCart pg new_id rows = Inr (rows @ [row])"
    if "\<forall>r\<in>set rows. \<not> (user_id r = uid \<and> product_id r = route_id pg
             \<and> line_matches (selectedVariant pg) (selectedMeasurement pg) r)"
    using addToCart_insert [OF g that] row by simp
  have fields: "cart_id row = new_id \<and> user_id row = uid \<and> product_id row = route_id pg
          \<and> quantity_litres row = quantity pg
          \<and> variant_selection row =
              map_option (\<lambda>v. \<lparr>sel_label = v_label v, sel_image_url = v_image_url v,
                                 sel_price = stored_number (v_price v)\<rparr>) (selectedVariant pg)
          \<and> variant_price row =
              (case selectedVariant pg of
                 Some v \<Rightarrow> stored_number (v_price v)
               | None \<Rightarrow> None)
          \<and> measurement_label row = or_null (measurement_title p)
          \<and> measurement_value row =
              (case selectedMeasurement pg of
                 Some m \<Rightarrow> nullish (m_label m) JNull
               | None \<Rightarrow> JNull)
          \<and> measurement_price row =
              (case selectedMeasurement pg of
                 Some m \<Rightarrow> stored_number (m_price m)
               | None \<Rightarrow> None)"
    by (simp add: row new_cart_row_def variantPayload_def currMeas_def)
  have twice: "addToCart pg new_id rows = Inr (rows @ [row])
          \<and> addToCart (pg\<lparr>quantity := qty\<rparr>) next_id (rows @ [row]) =
              Inr (rows @ [row\<lparr>quantity_litres := quantity pg + qty\<rparr>])
          \<and> existing_lines uid (route_id pg)
              (rows @ [row\<lparr>quantity_litres := quantity pg + qty\<rparr>]) =
              [row\<lparr>quantity_litres := quantity pg + qty\<rparr>]"
    if a: "selectedVariant pg = None \<and> selectedMeasurement pg = None
            \<and> existing_lines uid (route_id pg) rows = [] \<and> new_id \<notin> cart_id ` set rows"
  proof -
    have nv: "\<not> hasVariants pg" and nm: "\<not> hasMeasurements pg"
      using a g(3,4) by auto
    have two: "addToCart pg new_id rows = Inr (rows @ [row])
       \<and> addToCart (pg\<lparr>quantity := qty\<rparr>) next_id (rows @ [row]) =
           Inr (rows @ [row\<lparr>quantity_litres := quantity pg + qty\<rparr>])"
      using addToCart_twice [OF g(1,2) _ _ nv nm] a row by simp
    have "existing_lines uid (route_id pg) (rows @ [row\<lparr>quantity_litres := quantity pg + qty\<rparr>])
          = [row\<lparr>quantity_litres := quantity pg + qty\<rparr>]"
      using a by (simp add: existing_lines_def row new_cart_row_def)
    then show ?thesis
      using two by simp
  qed
  show ?thesis
    unfolding row_def [symmetric] using merge ins fields twice by blast
qed

theorem add_to_cart_merges_or_inserts_witness:
  "addToCart page_red ''r2'' [line_blue, line_red]
     = Inr [line_blue, line_red\<lparr>quantity_litres := 3\<rparr>]
   \<and> addToCart page_red ''r2'' [line_blue]
     = Inr [line_blue, new_cart_row page_red ''u1'' oil ''r2'']
   \<and> variant_price (new_cart_row page_red ''u1'' oil ''r2'') = Some 120
   \<and> addToCart page_plain ''r1'' [] = Inr [new_cart_row page_plain ''u1'' oil ''r1'']
   \<and> addToCart (page_plain\<lparr>quantity := 3\<rparr>) ''r2'' [new_cart_row page_plain ''u1'' oil ''r1'']
     = Inr [(new_cart_row page_plain ''u1'' oil ''r1'')\<lparr>quantity_litres := 5\<rparr>]"
proof -
  have m: "line_matches (selectedVariant page_red) (selectedMeasurement page_red) line_red"
    and b: "\<not> line_matches (selectedVariant page_red) (selectedMeasurement page_red) line_blue"
    by (simp_all add: line_matches_def itemVar_def currVar_def itemMeas_def currMeas_def
          page_red_def line_red_def line_blue_def)
  have 1: "addToCart page_red ''r2'' [line_blue, line_red]
     = Inr [line_blue, line_red\<lparr>quantity_litres := 3\<rparr>]"
    using add_to_cart_merges_or_inserts
      [where pg = page_red and uid = "''u1''" and p = oil and rows = "[line_blue, line_red]"
         and new_id = "''r2''"] m b
    by (auto simp: page_red_def line_red_def line_blue_def less_Suc_eq)
  have 2: "addToCart page_red ''r2'' [line_blue]
     = Inr [line_blue, new_cart_row page_red ''u1'' oil ''r2'']
   \<and> variant_price (new_cart_row page_red ''u1'' oil ''r2'') = Some 120"
    using add_to_cart_merges_or_inserts
      [where pg = page_red and uid = "''u1''" and p = oil and rows = "[line_blue]"
         and new_id = "''r2''"] b
    by (simp add: page_red_def line_blue_def new_cart_row_def variantPayload_def
          stored_number_def currMeas_def or_null_def oil_def)
  have 3: "addToCart page_plain ''r1'' [] = Inr [new_cart_row page_plain ''u1'' oil ''r1'']
   \<and> addToCart (page_plain\<lparr>quantity := 3\<rparr>) ''r2'' [new_cart_row page_plain ''u1'' oil ''r1'']
     = Inr [(new_cart_row page_plain ''u1'' oil ''r1'')\<lparr>quantity_litres := 5\<rparr>]"
    using add_to_cart_merges_or_inserts
      [where pg = page_plain and uid = "''u1''" and p = oil and rows = "[]"
         and new_id = "''r1''" and qty = 3 and next_id = "''r2''"]
    by (simp add: page_plain_def existing_lines_def new_cart_row_def variantPayload_def
          currMeas_def or_null_def oil_def)
  show ?thesis using 1 2 3 by simp
qed

section \<open>Properties of the order composer\<close>

text \<open>
  The unit price of a checkout line is the rule of the specification on what the
  line holds, and the subtotal is the sum of unit price times quantity.
\<close>

lemma pricePerLitre_rule: "pricePerLitre item = spec_line_price item"
  by (simp add: pricePerLitre_def spec_line_price_def spec_effective_price_def
        variantPrice_def measurementPrice_def or_zero_def is_number_def carries_def
        split: option.splits)

lemma foldl_sum:
  "foldl (\<lambda>sum item. sum + f item) a xs = a + sum_list (map f xs)"
  by (induction xs arbitrary: a) (simp_all add: add.assoc)

lemma subtotal_sum:
  "subtotal cartItems =
     sum_list (map (\<lambda>item. spec_line_price item * quantity_litres item) cartItems)"
  by (simp add: subtotal_def foldl_sum pricePerLitre_rule Let_def)

lemma createSupabaseOrder_success:
  assumes "cartItems \<noteq> []"
  shows "createSupabaseOrder (Some uid) cartItems appliedCoupon address orderNumber
           (Inr oid) None st =
         (Inr \<lparr>order_id = oid, order_user_id = uid, order_number = orderNumber,
               total_amount = subtotal cartItems,
               discount_amount = discount (subtotal cartItems) appliedCoupon,
               final_amount = total (subtotal cartItems) appliedCoupon,
               coupon_code = map_option code appliedCoupon,
               shipping_address = address,
               status = Pending, payment_status = PaymentPending\<rparr>,
          \<lparr>orders = orders st @
             [\<lparr>order_id = oid, order_user_id = uid, order_number = orderNumber,
               total_amount = subtotal cartItems,
               discount_amount = discount (subtotal cartItems) appliedCoupon,
               final_amount = total (subtotal cartItems) appliedCoupon,
               coupon_code = map_option code appliedCoupon,
               shipping_address = address,
               status = Pending, payment_status = PaymentPending\<rparr>],
           order_items = order_items st @ map (orderItem oid) cartItems\<rparr>)"
  using assms by (simp add: createSupabaseOrder_def Let_def)

text \<open>
  C2. For a signed-in user, a non-empty cart and a store that accepts both inserts,
  checkout adds exactly one order, whose subtotal is the sum over the cart lines of
  unit price times quantity, whose final amount is its subtotal minus its discount
  (the checkout page's \<open>discount\<close>) and whose status and payment status are both
  pending, and exactly one order line per cart line, in order, carrying the order's
  id, the line's product and quantity and, as unit price, the price that the rule of
  the specification gives for what the line holds at that moment
  (\<open>spec_line_price\<close>: the line's variant price, or else the price inside its
  variant selection, its measurement price, and the sale and base price of its
  product). The lines already in the store are kept as they are: an order line holds
  its price as a number, and nothing here rewrites it when the catalogue changes.
  With an empty cart, whatever the store would answer, the error is ``Cart is
  empty'' and the store is unchanged.
\<close>

theorem checkout_composes_order:
  assumes "cartItems \<noteq> []"
  shows "(case createSupabaseOrder (Some uid) cartItems appliedCoupon address orderNumber
               (Inr oid) None st of
            (Inl e, st') \<Rightarrow> False
          | (Inr ord, st') \<Rightarrow>
              orders st' = orders st @ [ord]
              \<and> order_user_id ord = uid
              \<and> total_amount ord =
                  sum_list (map (\<lambda>item. spec_line_price item * quantity_litres item) cartItems)
              \<and> discount_amount ord = discount (total_amount ord) appliedCoupon
              \<and> final_amount ord = total_amount ord - discount_amount ord
              \<and> status ord = Pending \<and> payment_status ord = PaymentPending
              \<and> take (length (order_items st)) (order_items st') = order_items st
              \<and> length (order_items st') = length (order_items st) + length cartItems
              \<and> (\<forall>i<length cartItems.
                    oi_order_id (order_items st' ! (length (order_items st) + i)) = order_id ord
                    \<and> oi_product_id (order_items st' ! (length (order_items st) + i))
                        = product_id (cartItems ! i)
                    \<and> oi_quantity_litres (order_items st' ! (length (order_items st) + i))
                        = quantity_litres (cartItems ! i)
                    \<and> oi_price_per_litre (order_items st' ! (length (order_items st) + i))
                        = spec_line_price (cartItems ! i)
                    \<and> total_price (order_items st' ! (length (order_items st) + i))
                        = spec_line_price (cartItems ! i) * quantity_litres (cartItems ! i)))
       \<and> createSupabaseOrder usr [] appliedCoupon address orderNumber order_reply items_reply st
           = (Inl CartIsEmpty, st)"
proof -
  have line: "(order_items st @ map (orderItem oid) cartItems) ! (length (order_items st) + i)
                = orderItem oid (cartItems ! i)" if "i < length cartItems" for i
    using that by (simp add: nth_append)
  have empty: "createSupabaseOrder usr [] appliedCoupon address orderNumber order_reply
                 items_reply st = (Inl CartIsEmpty, st)"
    by (simp add: createSupabaseOrder_def split: option.splits)
  show ?thesis
    using empty line
    by (simp add: createSupabaseOrder_success [OF assms] total_def orderItem_def
          pricePerLitre_rule subtotal_sum)
qed

theorem checkout_composes_order_witness:
  "cart_two \<noteq> [] \<and> cart_edge \<noteq> []
   \<and> (case createSupabaseOrder (Some ''u1'') cart_two (Some flat20) ''12 Mill Road, Salem''
              ''ORD-1-7'' (Inr ''o1'') None empty_store of
         (Inl e, st') \<Rightarrow> False
       | (Inr ord, st') \<Rightarrow>
           orders st' = [ord] \<and> total_amount ord = 150 \<and> discount_amount ord = 20
           \<and> final_amount ord = 130 \<and> status ord = Pending
           \<and> payment_status ord = PaymentPending
           \<and> map oi_price_per_litre (order_items st') = [50, 100])
   \<and> (case createSupabaseOrder (Some ''u1'') cart_edge None ''12 Mill Road, Salem''
              ''ORD-2-9'' (Inr ''o2'') None empty_store of
         (Inl e, st') \<Rightarrow> False
       | (Inr ord, st') \<Rightarrow>
           orders st' = [ord] \<and> total_amount ord = 110 \<and> discount_amount ord = 0
           \<and> final_amount ord = 110
           \<and> map oi_price_per_litre (order_items st') = [40, 30, 0])"
proof -
  have ne: "cart_two \<noteq> []" and ne': "cart_edge \<noteq> []"
    by (simp_all add: cart_two_def cart_edge_def)
  have prices: "map spec_line_price cart_two = [50, 100]"
    by (simp add: cart_two_def spec_line_price_def spec_effective_price_def carries_def
          oil_def oil_plain_def)
  have prices': "map spec_line_price cart_edge = [40, 30, 0]"
    by (simp add: cart_edge_def spec_line_price_def spec_effective_price_def carries_def
          oil_def)
  have sub: "sum_list (map (\<lambda>item. spec_line_price item * quantity_litres item) cart_two) = 150"
    by (simp add: cart_two_def spec_line_price_def spec_effective_price_def carries_def
          oil_def oil_plain_def)
  have sub': "sum_list (map (\<lambda>item. spec_line_price item * quantity_litres item) cart_edge)
                = 110"
    by (simp add: cart_edge_def spec_line_price_def spec_effective_price_def carries_def
          oil_def)
  have dis: "discount 150 (Some flat20) = 20" "discount 110 None = 0"
    by (simp_all add: discount_def flat20_def)
  have lines: "map (oi_price_per_litre \<circ> orderItem ''o1'') cart_two = [50, 100]"
    using prices by (simp add: orderItem_def comp_def pricePerLitre_rule)
  have lines': "map (oi_price_per_litre \<circ> orderItem ''o2'') cart_edge = [40, 30, 0]"
    using prices' by (simp add: orderItem_def comp_def pricePerLitre_rule)
  have 1: "case createSupabaseOrder (Some ''u1'') cart_two (Some flat20) ''12 Mill Road, Salem''
              ''ORD-1-7'' (Inr ''o1'') None empty_store of
         (Inl e, st') \<Rightarrow> False
       | (Inr ord, st') \<Rightarrow>
           orders st' = [ord] \<and> total_amount ord = 150 \<and> discount_amount ord = 20
           \<and> final_amount ord = 130 \<and> status ord = Pending
           \<and> payment_status ord = PaymentPending
           \<and> map oi_price_per_litre (order_items st') = [50, 100]"
    using checkout_composes_order
      [OF ne, where uid = "''u1''" and appliedCoupon = "Some flat20"
         and address = "''12 Mill Road, Salem''" and orderNumber = "''ORD-1-7''"
         and oid = "''o1''" and st = empty_store]
    by (simp add: createSupabaseOrder_success [OF ne] subtotal_sum sub dis lines total_def
          empty_store_def)
  have 2: "case createSupabaseOrder (Some ''u1'') cart_edge None ''12 Mill Road, Salem''
              ''ORD-2-9'' (Inr ''o2'') None empty_store of
         (Inl e, st') \<Rightarrow> False
       | (Inr ord, st') \<Rightarrow>
           orders st' = [ord] \<and> total_amount ord = 110 \<and> discount_amount ord = 0
           \<and> final_amount ord = 110
           \<and> map oi_price_per_litre (order_items st') = [40, 30, 0]"
    using checkout_composes_order
      [OF ne', where uid = "''u1''" and appliedCoupon = None
         and address = "''12 Mill Road, Salem''" and orderNumber = "''ORD-2-9''"
         and oid = "''o2''" and st = empty_store]
    by (simp add: createSupabaseOrder_success [OF ne'] subtotal_sum sub' dis lines' total_def
          empty_store_def)
  show ?thesis
    using ne ne' 1 2 by simp
qed

text \<open>
  C9. The order is inserted first; when the store then rejects the order lines, the
  error of that insert is the result, and the store keeps the order just inserted
  and has no line for it: nothing deletes the order. (When the order insert itself is
  rejected, nothing is stored and the lines are not attempted.)
\<close>

theorem order_creation_not_atomic:
  assumes "cartItems \<noteq> []" and "oid \<notin> oi_order_id ` set (order_items st)"
  shows "(case createSupabaseOrder (Some uid) cartItems appliedCoupon address orderNumber
               (Inr oid) (Some itemsError) st of
            (Inr ord, st') \<Rightarrow> False
          | (Inl e, st') \<Rightarrow>
              e = itemsError
              \<and> butlast (orders st') = orders st
              \<and> length (orders st') = length (orders st) + 1
              \<and> order_id (last (orders st')) = oid
              \<and> order_items st' = order_items st
              \<and> filter (\<lambda>l. oi_order_id l = oid) (order_items st') = [])
       \<and> createSupabaseOrder (Some uid) cartItems appliedCoupon address orderNumber
           (Inl orderError) items_reply st = (Inl orderError, st)"
  using assms
  by (auto simp: createSupabaseOrder_def Let_def filter_empty_conv)

theorem order_creation_not_atomic_witness:
  "cart_two \<noteq> [] \<and> ''o1'' \<notin> oi_order_id ` set (order_items empty_store)
   \<and> (case createSupabaseOrder (Some ''u1'') cart_two (Some flat20) ''12 Mill Road, Salem''
              ''ORD-1-7'' (Inr ''o1'') (Some (StoreError ''23503'')) empty_store of
         (Inr ord, st') \<Rightarrow> False
       | (Inl e, st') \<Rightarrow>
           e = StoreError ''23503'' \<and> map order_id (orders st') = [''o1'']
           \<and> order_items st' = [])"
proof -
  have ne: "cart_two \<noteq> []"
    by (simp add: cart_two_def)
  have fresh: "''o1'' \<notin> oi_order_id ` set (order_items empty_store)"
    by (simp add: empty_store_def)
  show ?thesis
    using order_creation_not_atomic
      [OF ne fresh, where uid = "''u1''" and appliedCoupon = "Some flat20"
         and address = "''12 Mill Road, Salem''" and orderNumber = "''ORD-1-7''"
         and itemsError = "StoreError ''23503''"]
    by (simp add: createSupabaseOrder_def Let_def cart_two_def empty_store_def)
qed


end
